theory Spec2Isabelle
  imports Complex_Main "HOL-Library.Word"
begin

section \<open>Sound wave factory: the embedding\<close>

text \<open>
  A shallow embedding of \<^verbatim>\<open>numpy_task_impl.py\<close>. Python exceptions are values of
  \<open>py_error\<close>; a function that may raise returns \<open>py_error + 'a\<close>. A float64 sample
  is a real number. The synthesis is embedded twice: \<open>get_normed_wave\<close> computes in
  exact real arithmetic, which differs from the program by rounding errors and serves
  where those do not matter (the bound on the samples, the control flow of
  \<open>create_wave\<close>); \<open>get_normed_wave64\<close> rounds every operation to float64 and serves
  where the value of a sample is at stake. Where float64 arithmetic leaves the finite
  numbers (the division by the peak in the normaliser), the values NaN and the two
  infinities are part of the model. An int16 array is a list of 16-bit words read as
  two's complement.
\<close>

subsection \<open>Exceptions\<close>

datatype py_error = ValueError string | RuntimeError string | OSError string

text \<open>\<^verbatim>\<open>str(e)\<close>, as the f-strings of the handlers use it.\<close>

fun str_of :: "py_error \<Rightarrow> string" where
  "str_of (ValueError m) = m"
| "str_of (RuntimeError m) = m"
| "str_of (OSError m) = m"

definition apostrophe :: string where
  "apostrophe = [CHR 0x27]"

subsection \<open>Constants and the note table\<close>

definition SAMPLING_RATE :: int where
  "SAMPLING_RATE = 44100"

definition DURATION_SECONDS :: int where
  "DURATION_SECONDS = 5"

definition MAX_AMPLITUDE :: int where
  "MAX_AMPLITUDE = 2 ^ 13"

text \<open>The dictionary literal, in the order of the source. Its keys are pairwise distinct.\<close>

definition NOTES :: "(string \<times> real) list" where
  "NOTES = [
    (''0'', 0), (''e0'', 20.60172), (''f0'', 21.82676), (''f#0'', 23.12465), (''g0'', 24.49971), (''g#0'', 25.95654), (''a0'', 27.50000),
    (''a#0'', 29.13524), (''b0'', 30.86771), (''c0'', 32.70320), (''c#0'', 34.64783), (''d0'', 36.70810), (''d#0'', 38.89087),
    (''e1'', 41.20344), (''f1'', 43.65353), (''f#1'', 46.24930), (''g1'', 48.99943), (''g#1'', 51.91309), (''a1'', 55.00000), (''a#1'', 58.27047),
    (''b1'', 61.73541), (''c1'', 65.40639), (''c#1'', 69.29566), (''d1'', 73.41619), (''d#1'', 77.78175),
    (''e2'', 82.40689), (''f2'', 87.30706), (''f#2'', 92.49861), (''g2'', 97.99886), (''g#2'', 103.8262), (''a2'', 110.0000), (''a#2'', 116.5409),
    (''b2'', 123.4708), (''c2'', 130.8128), (''c#2'', 138.5913), (''d2'', 146.8324), (''d#2'', 155.5635),
    (''e3'', 164.8138), (''f3'', 174.6141), (''f#3'', 184.9972), (''g3'', 195.9977), (''g#3'', 207.6523), (''a3'', 220.0000), (''a#3'', 233.0819),
    (''b3'', 246.9417), (''c3'', 261.6256), (''c#3'', 277.1826), (''d3'', 293.6648), (''d#3'', 311.1270),
    (''e4'', 329.6276), (''f4'', 349.2282), (''f#4'', 369.9944), (''g4'', 391.9954), (''g#4'', 415.3047), (''a4'', 440.0000), (''a#4'', 466.1638),
    (''b4'', 493.8833), (''c4'', 523.2511), (''c#4'', 554.3653), (''d4'', 587.3295), (''d#4'', 622.2540),
    (''e5'', 659.2551), (''f5'', 698.4565), (''f#5'', 739.9888), (''g5'', 783.9909), (''g#5'', 830.6094), (''a5'', 880.0000), (''a#5'', 932.3275),
    (''b5'', 987.7666), (''c5'', 1046.502), (''c#5'', 1108.731), (''d5'', 1174.659), (''d#5'', 1244.508),
    (''e6'', 1318.510), (''f6'', 1396.913), (''f#6'', 1479.978), (''g6'', 1567.982), (''g#6'', 1661.219), (''a6'', 1760.000), (''a#6'', 1864.655),
    (''b6'', 1975.533), (''c6'', 2093.005), (''c#6'', 2217.461), (''d6'', 2349.318), (''d#6'', 2489.016),
    (''e7'', 2637.020), (''f7'', 2793.826), (''f#7'', 2959.955), (''g7'', 3135.963), (''g#7'', 3322.438), (''a7'', 3520.000), (''a#7'', 3729.310),
    (''b7'', 3951.066), (''c7'', 4186.009), (''c#7'', 4434.922), (''d7'', 4698.636), (''d#7'', 4978.032)]"

text \<open>\<^verbatim>\<open>NOTES.get(note)\<close>: \<open>None\<close> for a key that is absent.\<close>

definition NOTES_get :: "string \<Rightarrow> real option" where
  "NOTES_get note = map_of NOTES note"

subsection \<open>The timeline\<close>

text \<open>The decimal numeral of an integer, as \<^verbatim>\<open>str\<close> prints it.\<close>

fun str_nat :: "nat \<Rightarrow> string" where
  "str_nat n =
     (if n < 10 then [char_of (48 + n)]
      else str_nat (n div 10) @ [char_of (48 + n mod 10)])"

definition str_int :: "int \<Rightarrow> string" where
  "str_int k = (if k < 0 then CHR ''-'' # str_nat (nat (- k)) else str_nat (nat k))"

text \<open>
  \<^verbatim>\<open>np.linspace(start, stop, num)\<close> with the default \<^verbatim>\<open>endpoint=True\<close>: a
  negative \<open>num\<close> raises ValueError; the samples are \<open>i * step + start\<close> with
  \<open>step = (stop - start) / (num - 1)\<close> when \<open>num - 1 > 0\<close> and \<open>i * (stop - start) + start\<close>
  otherwise; when \<open>num > 1\<close> the last sample is overwritten with \<open>stop\<close>.
\<close>

definition linspace :: "real \<Rightarrow> real \<Rightarrow> int \<Rightarrow> py_error + real list" where
  "linspace start stop num =
     (if num < 0 then
        Inl (ValueError (''Number of samples, '' @ str_int num @ '', must be non-negative.''))
      else
        let n = nat num;
            delta = stop - start;
            y = (if 0 < num - 1
                 then map (\<lambda>i. real i * (delta / real_of_int (num - 1)) + start) [0..<n]
                 else map (\<lambda>i. real i * delta + start) [0..<n])
        in Inr (if 1 < num then y[n - 1 := stop] else y))"

record SoundWaveFactory =
  sampling_rate :: int
  duration_seconds :: int
  max_amplitude :: int
  timeline :: "real list"

text \<open>\<^verbatim>\<open>SoundWaveFactory.__init__\<close>; an exception of \<open>linspace\<close> propagates.\<close>

definition init :: "int \<Rightarrow> int \<Rightarrow> int \<Rightarrow> py_error + SoundWaveFactory" where
  "init sr ds ma =
     (case linspace 0 (real_of_int ds) (sr * ds) of
        Inl e \<Rightarrow> Inl e
      | Inr ts \<Rightarrow> Inr \<lparr>sampling_rate = sr, duration_seconds = ds, max_amplitude = ma,
                       timeline = ts\<rparr>)"

subsection \<open>Synthesis\<close>

text \<open>
  The body of the \<^verbatim>\<open>try\<close> of \<^verbatim>\<open>get_normed_wave\<close>. It runs only behind the
  membership test, so the last branch is the one of \<^verbatim>\<open>'triangle'\<close> and the implicit
  \<^verbatim>\<open>return None\<close> after the chain is never reached. The numpy operations on a
  float64 array raise nothing, so every branch returns.
\<close>

definition waveform :: "SoundWaveFactory \<Rightarrow> real \<Rightarrow> string \<Rightarrow> py_error + real list" where
  "waveform self frequency wave_type =
     (if wave_type = ''sin'' then
        Inr (map (\<lambda>t. real_of_int (max_amplitude self) * sin (2 * pi * frequency * t))
               (timeline self))
      else if wave_type = ''square'' then
        Inr (map (\<lambda>t. real_of_int (max_amplitude self) * sgn (sin (2 * pi * frequency * t)))
               (timeline self))
      else
        Inr (map (\<lambda>t. real_of_int (max_amplitude self) * (2 / pi)
                         * arcsin (sin (2 * pi * frequency * t)))
               (timeline self)))"

definition get_normed_wave :: "SoundWaveFactory \<Rightarrow> real \<Rightarrow> string \<Rightarrow> py_error + real list" where
  "get_normed_wave self frequency wave_type =
     (if wave_type \<notin> set [''sin'', ''square'', ''triangle''] then
        Inl (ValueError (''Invalid wave type. Supported types: '' @ apostrophe @ ''sin''
               @ apostrophe @ '', '' @ apostrophe @ ''square'' @ apostrophe @ '', ''
               @ apostrophe @ ''triangle'' @ apostrophe @ ''.''))
      else
        (case waveform self frequency wave_type of
           Inl e \<Rightarrow> Inl (RuntimeError (''Error generating waveform: '' @ str_of e))
         | Inr wave \<Rightarrow> Inr wave))"

subsection \<open>Synthesis in float64 arithmetic\<close>

text \<open>
  Where a discontinuous function reads a float64 result, the rounding decides the
  outcome: \<^verbatim>\<open>np.sign\<close> of a sine that is zero in exact arithmetic is the sign of what
  float64 arithmetic leaves of it. So the synthesis is given a second time, with the
  arithmetic of the program: a float64 is a real with a 53-bit significand, every
  operation rounds its exact result to the nearest such number, ties to the even
  significand (overflow and subnormal numbers are left out: the exponent is unbounded);
  \<^verbatim>\<open>np.pi\<close> is the float64 nearest to \<open>\<pi>\<close>; the sine and the arcsine of the library
  are taken to be correctly rounded.
\<close>

definition round_half_even :: "real \<Rightarrow> int" where
  "round_half_even x =
     (let n = \<lfloor>x\<rfloor>; r = x - real_of_int n
      in if r < 1 / 2 then n
         else if 1 / 2 < r then n + 1
         else if even n then n else n + 1)"

definition round64 :: "real \<Rightarrow> real" where
  "round64 x =
     (if x = 0 then 0
      else let u = 2 powr (real_of_int \<lfloor>log 2 \<bar>x\<bar>\<rfloor> - 52)
           in real_of_int (round_half_even (x / u)) * u)"

definition mul64 :: "real \<Rightarrow> real \<Rightarrow> real" where
  "mul64 x y = round64 (x * y)"

definition div64 :: "real \<Rightarrow> real \<Rightarrow> real" where
  "div64 x y = round64 (x / y)"

definition np_pi :: real where
  "np_pi = 884279719003555 / 2 ^ 48"

definition np_sin :: "real \<Rightarrow> real" where
  "np_sin x = round64 (sin x)"

definition np_arcsin :: "real \<Rightarrow> real" where
  "np_arcsin x = round64 (arcsin x)"

text \<open>
  \<^verbatim>\<open>2 * np.pi * frequency * self.timeline\<close> is evaluated from the left, and so are
  the products with \<^verbatim>\<open>self.max_amplitude\<close>, a Python integer that is converted to
  float64 first.
\<close>

definition waveform64 :: "SoundWaveFactory \<Rightarrow> real \<Rightarrow> string \<Rightarrow> py_error + real list" where
  "waveform64 self frequency wave_type =
     (if wave_type = ''sin'' then
        Inr (map (\<lambda>t. mul64 (round64 (real_of_int (max_amplitude self)))
                        (np_sin (mul64 (mul64 (mul64 2 np_pi) frequency) t)))
               (timeline self))
      else if wave_type = ''square'' then
        Inr (map (\<lambda>t. mul64 (round64 (real_of_int (max_amplitude self)))
                        (sgn (np_sin (mul64 (mul64 (mul64 2 np_pi) frequency) t))))
               (timeline self))
      else
        Inr (map (\<lambda>t. mul64 (mul64 (round64 (real_of_int (max_amplitude self))) (div64 2 np_pi))
                        (np_arcsin (np_sin (mul64 (mul64 (mul64 2 np_pi) frequency) t))))
               (timeline self)))"

definition get_normed_wave64 :: "SoundWaveFactory \<Rightarrow> real \<Rightarrow> string \<Rightarrow> py_error + real list" where
  "get_normed_wave64 self frequency wave_type =
     (if wave_type \<notin> set [''sin'', ''square'', ''triangle''] then
        Inl (ValueError (''Invalid wave type. Supported types: '' @ apostrophe @ ''sin''
               @ apostrophe @ '', '' @ apostrophe @ ''square'' @ apostrophe @ '', ''
               @ apostrophe @ ''triangle'' @ apostrophe @ ''.''))
      else
        (case waveform64 self frequency wave_type of
           Inl e \<Rightarrow> Inl (RuntimeError (''Error generating waveform: '' @ str_of e))
         | Inr wave \<Rightarrow> Inr wave))"

subsection \<open>Quantisation and the container writer\<close>

text \<open>
  \<^verbatim>\<open>.astype(np.int16)\<close> on a float64 sample is the C conversion: the fractional part
  is dropped, towards zero. For a value outside the int16 range C leaves the result to
  the platform. On the x86-64 builds of numpy the sample is converted to a 32-bit
  integer whose low 16 bits are kept; a sample whose truncation does not fit 32 bits
  converts to the bit pattern \<open>0x80000000\<close>, whose low 16 bits are 0.
\<close>

definition trunc_toward_zero :: "real \<Rightarrow> int" where
  "trunc_toward_zero x = (if 0 \<le> x then \<lfloor>x\<rfloor> else \<lceil>x\<rceil>)"

definition astype_int16 :: "real \<Rightarrow> 16 word" where
  "astype_int16 x =
     (let k = trunc_toward_zero x
      in if - 2147483648 \<le> k \<and> k \<le> 2147483647 then word_of_int k else 0)"

text \<open>
  \<^verbatim>\<open>scipy.io.wavfile.write\<close> is outside the program. The environment \<open>refuses\<close> says for
  which path the write raises, and with what; the files written so far are state.
\<close>

type_synonym wav_files = "(string \<times> int \<times> 16 word list) list"

definition wavfile_write ::
    "(string \<Rightarrow> py_error option) \<Rightarrow> string \<Rightarrow> int \<Rightarrow> 16 word list \<Rightarrow> wav_files
       \<Rightarrow> py_error + wav_files" where
  "wavfile_write refuses file_name rate data files =
     (case refuses file_name of
        Some e \<Rightarrow> Inl e
      | None \<Rightarrow> Inr (files @ [(file_name, rate, data)]))"

definition creation_error :: "string \<Rightarrow> py_error \<Rightarrow> py_error" where
  "creation_error note e =
     RuntimeError (''Error creating wave for note '' @ apostrophe @ note @ apostrophe
                     @ '': '' @ str_of e)"

definition wave_file_name :: "string \<Rightarrow> string option \<Rightarrow> string" where
  "wave_file_name note name =
     (case name of None \<Rightarrow> note @ ''_wave.wav'' | Some n \<Rightarrow> n @ ''.wav'')"

definition create_wave ::
    "SoundWaveFactory \<Rightarrow> (string \<Rightarrow> py_error option) \<Rightarrow> string \<Rightarrow> string option \<Rightarrow> string
       \<Rightarrow> wav_files \<Rightarrow> (py_error + 16 word list) \<times> wav_files" where
  "create_wave self refuses note name wave_type files =
     (case NOTES_get note of
        None \<Rightarrow>
          (Inl (ValueError (''Note '' @ apostrophe @ note @ apostrophe
                  @ '' is not defined in the NOTES dictionary.'')), files)
      | Some frequency \<Rightarrow>
          (case get_normed_wave self frequency wave_type of
             Inl e \<Rightarrow> (Inl (creation_error note e), files)
           | Inr wave \<Rightarrow>
               let sound_wave = map astype_int16 wave;
                   file_name = wave_file_name note name
               in (case wavfile_write refuses file_name (sampling_rate self) sound_wave files of
                     Inl e \<Rightarrow> (Inl (creation_error note e), files)
                   | Inr files' \<Rightarrow> (Inr sound_wave, files'))))"

subsection \<open>The normaliser\<close>

text \<open>
  The division by the peak can leave the finite numbers, so the samples of the arrays
  that the normaliser reads and returns are finite reals, NaN or an infinity. Signed
  zeros are not told apart: the only divisor is a maximum of absolute values, which is
  never the negative zero.
\<close>

datatype float64 = Finite real | PosInf | NegInf | NaN

datatype ndarray = Int16Array "16 word list" | Float64Array "float64 list"

text \<open>A Python object is an ndarray or something else (a plain list, for one).\<close>

datatype py_object = Ndarray ndarray | Other

fun isinstance_ndarray :: "py_object \<Rightarrow> bool" where
  "isinstance_ndarray (Ndarray a) = True"
| "isinstance_ndarray Other = False"

text \<open>The arrays among the objects; behind the \<^verbatim>\<open>isinstance\<close> test these are all of them.\<close>

fun arrays_of :: "py_object list \<Rightarrow> ndarray list" where
  "arrays_of [] = []"
| "arrays_of (Ndarray a # os) = a # arrays_of os"
| "arrays_of (Other # os) = arrays_of os"

text \<open>\<^verbatim>\<open>np.abs\<close>: on int16 the negation wraps, so the absolute value of -32768 is -32768.\<close>

definition abs_int16 :: "16 word \<Rightarrow> 16 word" where
  "abs_int16 x = (if sint x < 0 then - x else x)"

fun abs_float64 :: "float64 \<Rightarrow> float64" where
  "abs_float64 (Finite x) = Finite \<bar>x\<bar>"
| "abs_float64 PosInf = PosInf"
| "abs_float64 NegInf = PosInf"
| "abs_float64 NaN = NaN"

text \<open>The comparison \<^verbatim>\<open>x > y\<close>; every comparison with NaN is false.\<close>

definition gt_int16 :: "16 word \<Rightarrow> 16 word \<Rightarrow> bool" where
  "gt_int16 x y = (sint y < sint x)"

fun gt_float64 :: "float64 \<Rightarrow> float64 \<Rightarrow> bool" where
  "gt_float64 (Finite x) (Finite y) = (y < x)"
| "gt_float64 (Finite x) NegInf = True"
| "gt_float64 PosInf (Finite y) = True"
| "gt_float64 PosInf NegInf = True"
| "gt_float64 x y = False"

text \<open>
  Python's builtin \<^verbatim>\<open>max\<close> over the elements of an array: ValueError on an empty
  one; otherwise the first element is kept until a later one compares greater.
\<close>

fun py_max :: "('a \<Rightarrow> 'a \<Rightarrow> bool) \<Rightarrow> 'a list \<Rightarrow> py_error + 'a" where
  "py_max gt [] = Inl (ValueError ''max() arg is an empty sequence'')"
| "py_max gt (x # xs) = Inr (foldl (\<lambda>m y. if gt y m then y else m) x xs)"

text \<open>The float division of numpy: it raises nothing, a zero divisor gives NaN or an infinity.\<close>

fun true_divide :: "float64 \<Rightarrow> float64 \<Rightarrow> float64" where
  "true_divide NaN y = NaN"
| "true_divide x NaN = NaN"
| "true_divide (Finite x) (Finite y) =
     (if y = 0 then (if x = 0 then NaN else if 0 < x then PosInf else NegInf)
      else Finite (x / y))"
| "true_divide (Finite x) y = Finite 0"
| "true_divide PosInf (Finite y) = (if 0 \<le> y then PosInf else NegInf)"
| "true_divide NegInf (Finite y) = (if 0 \<le> y then NegInf else PosInf)"
| "true_divide x y = NaN"

text \<open>The product of a sample with the Python integer \<^verbatim>\<open>self.max_amplitude\<close>.\<close>

fun multiply_int :: "float64 \<Rightarrow> int \<Rightarrow> float64" where
  "multiply_int (Finite x) a = Finite (x * real_of_int a)"
| "multiply_int NaN a = NaN"
| "multiply_int PosInf a = (if a = 0 then NaN else if 0 < a then PosInf else NegInf)"
| "multiply_int NegInf a = (if a = 0 then NaN else if 0 < a then NegInf else PosInf)"

text \<open>
  One element of the list comprehension: \<^verbatim>\<open>wave / max(np.abs(wave)) * self.max_amplitude\<close>.
  An int16 array is divided by an int16 scalar in floating point.
\<close>

fun normalize_wave :: "int \<Rightarrow> ndarray \<Rightarrow> py_error + float64 list" where
  "normalize_wave a (Int16Array wave) =
     (case py_max gt_int16 (map abs_int16 wave) of
        Inl e \<Rightarrow> Inl e
      | Inr m \<Rightarrow>
          Inr (map (\<lambda>x. multiply_int (true_divide (Finite (real_of_int (sint x)))
                                                  (Finite (real_of_int (sint m)))) a) wave))"
| "normalize_wave a (Float64Array wave) =
     (case py_max gt_float64 (map abs_float64 wave) of
        Inl e \<Rightarrow> Inl e
      | Inr m \<Rightarrow> Inr (map (\<lambda>x. multiply_int (true_divide x m) a) wave))"

text \<open>The list comprehension: the first exception ends it.\<close>

fun normalize_each :: "int \<Rightarrow> ndarray list \<Rightarrow> py_error + float64 list list" where
  "normalize_each a [] = Inr []"
| "normalize_each a (wave # waves) =
     (case normalize_wave a wave of
        Inl e \<Rightarrow> Inl e
      | Inr r \<Rightarrow> (case normalize_each a waves of
                    Inl e \<Rightarrow> Inl e
                  | Inr rs \<Rightarrow> Inr (r # rs)))"

definition normalize_sound_waves ::
    "SoundWaveFactory \<Rightarrow> py_object list \<Rightarrow> py_error + float64 list list" where
  "normalize_sound_waves self waves =
     (if \<not> list_all isinstance_ndarray waves then
        Inl (ValueError (''All elements in '' @ apostrophe @ ''waves'' @ apostrophe
               @ '' must be numpy ndarray objects.''))
      else
        (case normalize_each (max_amplitude self) (arrays_of waves) of
           Inl e \<Rightarrow> Inl (RuntimeError (''Error normalizing sound waves: '' @ str_of e))
         | Inr rs \<Rightarrow> Inr rs))"

subsection \<open>The specification's synthesis formulas\<close>

text \<open>
  The three wave shapes as the specification words them, for comparison with
  \<open>get_normed_wave\<close>: the closed enumeration, the sign function with \<open>sign(0) = 0\<close>,
  and one sample of each shape.
\<close>

datatype WaveType = Sine | Square | Triangle

definition spec_wave_type :: "string \<Rightarrow> WaveType option" where
  "spec_wave_type s =
     (if s = ''sin'' then Some Sine
      else if s = ''square'' then Some Square
      else if s = ''triangle'' then Some Triangle
      else None)"

definition spec_sign :: "real \<Rightarrow> real" where
  "spec_sign x = (if x = 0 then 0 else if 0 < x then 1 else - 1)"

fun spec_sample :: "WaveType \<Rightarrow> int \<Rightarrow> real \<Rightarrow> real \<Rightarrow> real" where
  "spec_sample Sine a f t = real_of_int a * sin (2 * pi * f * t)"
| "spec_sample Square a f t = real_of_int a * spec_sign (sin (2 * pi * f * t))"
| "spec_sample Triangle a f t = real_of_int a * (2 / pi) * arcsin (sin (2 * pi * f * t))"

text \<open>The same formulas with the operations of float64 arithmetic, evaluated from the left.\<close>

definition phase64 :: "real \<Rightarrow> real \<Rightarrow> real" where
  "phase64 frequency t = mul64 (mul64 (mul64 2 np_pi) frequency) t"

fun spec_sample64 :: "WaveType \<Rightarrow> int \<Rightarrow> real \<Rightarrow> real \<Rightarrow> real" where
  "spec_sample64 Sine a f t = mul64 (round64 (real_of_int a)) (np_sin (phase64 f t))"
| "spec_sample64 Square a f t =
     mul64 (round64 (real_of_int a)) (spec_sign (np_sin (phase64 f t)))"
| "spec_sample64 Triangle a f t =
     mul64 (mul64 (round64 (real_of_int a)) (div64 2 np_pi)) (np_arcsin (np_sin (phase64 f t)))"

subsection \<open>Predicates on buffers and example inputs\<close>

text \<open>\<^verbatim>\<open>len(wave)\<close>, and the buffers all of whose samples are zero.\<close>

fun len :: "ndarray \<Rightarrow> nat" where
  "len (Int16Array wave) = length wave"
| "len (Float64Array wave) = length wave"

fun all_zero :: "ndarray \<Rightarrow> bool" where
  "all_zero (Int16Array wave) = list_all (\<lambda>x. x = 0) wave"
| "all_zero (Float64Array wave) = list_all (\<lambda>x. x = Finite 0) wave"

text \<open>
  Two factories as the constructor builds them, \<^verbatim>\<open>SoundWaveFactory(2, 1)\<close> and
  \<^verbatim>\<open>SoundWaveFactory(1, 1)\<close>, and two environments of the container writer: one
  where every write succeeds and one where every write is refused.
\<close>

definition tiny_factory :: SoundWaveFactory where
  "tiny_factory = \<lparr>sampling_rate = 2, duration_seconds = 1, max_amplitude = MAX_AMPLITUDE,
                    timeline = [0, 1]\<rparr>"

definition unit_factory :: SoundWaveFactory where
  "unit_factory = \<lparr>sampling_rate = 1, duration_seconds = 1, max_amplitude = MAX_AMPLITUDE,
                    timeline = [0]\<rparr>"

text \<open>
  \<^verbatim>\<open>SoundWaveFactory(67, 1, a)\<close>: 67 time points \<open>i / 66\<close>. At the note \<open>a0\<close>
  (27.5 Hz) the sine is \<open>1/2\<close> at the point \<open>1/66\<close> and \<open>-1/2\<close> at \<open>7/66\<close>.
\<close>

definition factory_67 :: "int \<Rightarrow> SoundWaveFactory" where
  "factory_67 a = \<lparr>sampling_rate = 67, duration_seconds = 1, max_amplitude = a,
                    timeline = (map (\<lambda>i. real i * (1 / 66) + 0) [0..<67])[66 := 1]\<rparr>"

definition writable :: "string \<Rightarrow> py_error option" where
  "writable path = None"

definition read_only :: "string \<Rightarrow> py_error option" where
  "read_only path = Some (OSError ''Permission denied'')"

section \<open>Properties\<close>

subsection \<open>The note table\<close>

lemma NOTES_keys_distinct: "distinct (map fst NOTES)"
  by (simp add: NOTES_def)

lemma NOTES_get_known:
  assumes "note \<in> fst ` set NOTES"
  shows "\<exists>frequency. NOTES_get note = Some frequency"
  using assms by (cases "map_of NOTES note") (auto simp: NOTES_get_def map_of_eq_None_iff)

lemma NOTES_get_unknown:
  assumes "note \<notin> fst ` set NOTES"
  shows "NOTES_get note = None"
  using assms by (simp add: NOTES_get_def map_of_eq_None_iff)

lemma NOTES_get_a4: "NOTES_get ''a4'' = Some 440"
  by (simp add: NOTES_get_def NOTES_def)

lemma a4_known: "''a4'' \<in> fst ` set NOTES"
  by (simp add: NOTES_def)

lemma z9_unknown: "''z9'' \<notin> fst ` set NOTES"
  by (simp add: NOTES_def)

lemma linspace_ge2:
  assumes "2 \<le> num"
  shows "linspace start stop num =
     Inr ((map (\<lambda>i. real i * ((stop - start) / real_of_int (num - 1)) + start) [0..<nat num])
            [nat num - 1 := stop])"
  using assms by (simp add: linspace_def Let_def)

lemma init_tiny_factory: "init 2 1 MAX_AMPLITUDE = Inr tiny_factory"
  by (simp add: init_def linspace_def tiny_factory_def Let_def numeral_2_eq_2)

subsection \<open>Synthesis\<close>

lemma get_normed_wave_valid:
  assumes "wave_type \<in> {''sin'', ''square'', ''triangle''}"
  shows "get_normed_wave self frequency wave_type = waveform self frequency wave_type"
    and "\<exists>wave. get_normed_wave self frequency wave_type = Inr wave
           \<and> length wave = length (timeline self)"
  using assms by (auto simp: get_normed_wave_def waveform_def)

text \<open>
  C8. A wave type outside \<open>'sin'\<close>, \<open>'square'\<close>, \<open>'triangle'\<close> makes \<open>get_normed_wave\<close>
  raise the ValueError of the membership test, whatever the frequency and the timeline
  are: no waveform is computed. That error is not the RuntimeError in which the handler
  of the computation wraps a failure.
\<close>

theorem invalid_wave_type_rejected:
  assumes "wave_type \<notin> {''sin'', ''square'', ''triangle''}"
  shows "get_normed_wave self frequency wave_type =
           Inl (ValueError (''Invalid wave type. Supported types: '' @ apostrophe @ ''sin''
                  @ apostrophe @ '', '' @ apostrophe @ ''square'' @ apostrophe @ '', ''
                  @ apostrophe @ ''triangle'' @ apostrophe @ ''.''))
         \<and> (\<forall>m. get_normed_wave self frequency wave_type \<noteq> Inl (RuntimeError m))"
  using assms by (simp add: get_normed_wave_def)

theorem invalid_wave_type_rejected_witness:
  "''sawtooth'' \<notin> {''sin'', ''square'', ''triangle''}
   \<and> get_normed_wave tiny_factory 440 ''sawtooth''
       = Inl (ValueError (''Invalid wave type. Supported types: '' @ apostrophe @ ''sin''
                @ apostrophe @ '', '' @ apostrophe @ ''square'' @ apostrophe @ '', ''
                @ apostrophe @ ''triangle'' @ apostrophe @ ''.''))"
  using invalid_wave_type_rejected [of "''sawtooth''" tiny_factory 440] by simp

lemma spec_sign_eq_sgn: "spec_sign x = sgn x"
  by (simp add: spec_sign_def sgn_real_def)

text \<open>
  Rounding to float64: a scaled significand is rounded as an integer, and a positive
  number stays positive.
\<close>

lemma round64_0: "round64 0 = 0"
  by (simp add: round64_def)

lemma floor_log2_eq:
  assumes "2 powr real_of_int e \<le> x" and "x < 2 powr (real_of_int e + 1)"
  shows "\<lfloor>log 2 x\<rfloor> = e"
proof -
  have pos: "0 < x" using assms(1) powr_gt_zero [of 2 "real_of_int e"] by linarith
  have "real_of_int e \<le> log 2 x"
    using assms(1) pos by (simp add: le_log_iff)
  moreover have "log 2 x < real_of_int e + 1"
    using assms(2) pos by (simp add: log_less_iff)
  ultimately show ?thesis by linarith
qed

lemma round64_scaled:
  assumes "2 ^ 52 \<le> \<bar>y\<bar>" and "\<bar>y\<bar> < 2 ^ 53"
  shows "round64 (y * 2 powr real_of_int e) = real_of_int (round_half_even y) * 2 powr real_of_int e"
proof -
  let ?x = "y * 2 powr real_of_int e"
  have y0: "y \<noteq> 0" using assms(1) by auto
  then have x0: "?x \<noteq> 0" by simp
  have ax: "\<bar>?x\<bar> = \<bar>y\<bar> * 2 powr real_of_int e" by (simp add: abs_mult)
  have "2 powr real_of_int (52 + e) = 2 ^ 52 * 2 powr real_of_int e"
    by (simp add: powr_add powr_realpow [symmetric] del: powr_realpow)
  then have lo: "2 powr real_of_int (52 + e) \<le> \<bar>?x\<bar>"
    using assms(1) by (simp add: ax)
  have "2 powr (real_of_int (52 + e) + 1) = 2 ^ 53 * 2 powr real_of_int e"
    by (simp add: powr_add powr_realpow [symmetric] del: powr_realpow)
  then have hi: "\<bar>?x\<bar> < 2 powr (real_of_int (52 + e) + 1)"
    using assms(2) by (simp add: ax)
  have round64: "\<lfloor>log 2 \<bar>?x\<bar>\<rfloor> = 52 + e"
    by (rule floor_log2_eq [OF lo hi])
  have u: "2 powr (real_of_int \<lfloor>log 2 \<bar>?x\<bar>\<rfloor> - 52) = 2 powr real_of_int e"
    by (simp only: round64) simp
  have "?x / 2 powr real_of_int e = y" by simp
  then show ?thesis
    using x0 by (simp only: round64_def u Let_def if_False)
qed

lemma round_half_even_int: "round_half_even (real_of_int m) = m"
  by (simp add: round_half_even_def)

lemma round_half_even_ge_floor: "\<lfloor>x\<rfloor> \<le> round_half_even x"
  by (simp add: round_half_even_def Let_def)

lemma round64_pos:
  assumes "0 < x"
  shows "0 < round64 x"
proof -
  let ?e = "\<lfloor>log 2 \<bar>x\<bar>\<rfloor>"
  let ?u = "2 powr (real_of_int ?e - 52)"
  have upos: "0 < ?u" by simp
  have "real_of_int ?e \<le> log 2 x" using assms by simp
  then have "2 powr real_of_int ?e \<le> x"
    using assms by (simp add: powr_le_iff)
  moreover have "(2 powr 52) * ?u = 2 powr real_of_int ?e"
  proof -
    have "(2::real) powr 52 * 2 powr (real_of_int ?e - 52) = 2 powr (52 + (real_of_int ?e - 52))"
      by (rule powr_add [symmetric])
    then show ?thesis by (simp del: powr_numeral)
  qed
  ultimately have "(2 powr 52) * ?u \<le> x"
    by (simp only:)
  then have "2 powr 52 \<le> x / ?u"
    by (simp only: pos_le_divide_eq [OF upos])
  moreover have "(1::real) \<le> 2 powr 52"
    by simp
  ultimately have "1 \<le> x / ?u"
    by linarith
  then have "1 \<le> \<lfloor>x / ?u\<rfloor>" by linarith
  then have "1 \<le> round_half_even (x / ?u)"
    using round_half_even_ge_floor [of "x / ?u"] by linarith
  then have "0 < real_of_int (round_half_even (x / ?u)) * ?u"
    using upos by simp
  then show ?thesis using assms by (simp add: round64_def Let_def)
qed

lemma arctan_partial_sums:
  fixes x :: real
  assumes "0 \<le> x" "x \<le> 1"
  shows "(\<Sum>i<2 * n. (- 1) ^ i * (1 / real (i * 2 + 1) * x ^ (i * 2 + 1))) \<le> arctan x"
    and "arctan x \<le> (\<Sum>i<2 * n + 1. (- 1) ^ i * (1 / real (i * 2 + 1) * x ^ (i * 2 + 1)))"
proof -
  let ?a = "\<lambda>n. 1 / real (n * 2 + 1) * x ^ (n * 2 + 1)"
  have ax: "\<bar>x\<bar> \<le> 1" using assms by simp
  have z: "?a \<longlonglongrightarrow> 0" by (rule zeroseq_arctan_series [OF ax])
  have p: "0 \<le> ?a n" for n using assms by simp
  have m: "?a (Suc n) \<le> ?a n" for n
  proof -
    have "x ^ (Suc n * 2 + 1) \<le> x ^ (n * 2 + 1)"
      using assms by (intro power_decreasing) simp_all
    moreover have "1 / real (Suc n * 2 + 1) \<le> 1 / real (n * 2 + 1)"
      by (simp add: field_simps)
    ultimately show ?thesis
      using assms by (intro mult_mono) simp_all
  qed
  have s: "arctan x = (\<Sum>k. (- 1) ^ k * ?a k)"
    by (rule arctan_series [OF ax])
  show "(\<Sum>i<2 * n. (- 1) ^ i * ?a i) \<le> arctan x"
    unfolding s by (rule summable_Leibniz'(2) [OF z p m])
  show "arctan x \<le> (\<Sum>i<2 * n + 1. (- 1) ^ i * ?a i)"
    unfolding s by (rule summable_Leibniz'(4) [OF z p m])
qed

lemma arctan_5_upper:
  "arctan (1 / 5) \<le> (\<Sum>i<11. (- 1) ^ i * (1 / real (i * 2 + 1) * (1 / 5) ^ (i * 2 + 1)))"
  using arctan_partial_sums(2) [of "1 / 5" 5] by simp

lemma arctan_239_lower:
  "(\<Sum>i<4. (- 1) ^ i * (1 / real (i * 2 + 1) * (1 / 239) ^ (i * 2 + 1))) \<le> arctan (1 / 239)"
  using arctan_partial_sums(1) [of "1 / 239" 2] by simp

lemma arctan_5_lower:
  "(\<Sum>i<2. (- 1) ^ i * (1 / real (i * 2 + 1) * (1 / 5) ^ (i * 2 + 1))) \<le> arctan (1 / 5)"
  using arctan_partial_sums(1) [of "1 / 5" 1] by simp

lemma arctan_239_upper:
  "arctan (1 / 239) \<le> (\<Sum>i<1. (- 1) ^ i * (1 / real (i * 2 + 1) * (1 / 239) ^ (i * 2 + 1)))"
  using arctan_partial_sums(2) [of "1 / 239" 0] by simp

lemma pi_machin: "pi = 16 * arctan (1 / 5) - 4 * arctan (1 / 239)"
  using machin by simp

lemma pi_upper: "880 * pi < 6079423068149441 / 2 ^ 41"
proof -
  have "16 * (\<Sum>i<11. (- 1) ^ i * (1 / real (i * 2 + 1) * (1 / 5) ^ (i * 2 + 1)))
          - 4 * (\<Sum>i<4. (- 1) ^ i * (1 / real (i * 2 + 1) * (1 / 239) ^ (i * 2 + 1)))
        < (6079423068149441 / (880 * 2 ^ 41) :: real)"
    by (simp add: lessThan_nat_numeral power_divide)
  moreover have "pi \<le> 16 * (\<Sum>i<11. (- 1) ^ i * (1 / real (i * 2 + 1) * (1 / 5) ^ (i * 2 + 1)))
          - 4 * (\<Sum>i<4. (- 1) ^ i * (1 / real (i * 2 + 1) * (1 / 239) ^ (i * 2 + 1)))"
    using arctan_5_upper arctan_239_lower unfolding pi_machin by linarith
  ultimately have "pi < 6079423068149441 / (880 * 2 ^ 41)"
    by linarith
  then show ?thesis by (simp add: field_simps)
qed

lemma pi_lower: "157 / 50 < pi"
proof -
  have "(157 / 50 :: real)
        < 16 * (\<Sum>i<2. (- 1) ^ i * (1 / real (i * 2 + 1) * (1 / 5) ^ (i * 2 + 1)))
          - 4 * (\<Sum>i<1. (- 1) ^ i * (1 / real (i * 2 + 1) * (1 / 239) ^ (i * 2 + 1)))"
    by (simp add: lessThan_nat_numeral power_divide)
  moreover have "16 * (\<Sum>i<2. (- 1) ^ i * (1 / real (i * 2 + 1) * (1 / 5) ^ (i * 2 + 1)))
          - 4 * (\<Sum>i<1. (- 1) ^ i * (1 / real (i * 2 + 1) * (1 / 239) ^ (i * 2 + 1))) \<le> pi"
    using arctan_5_lower arctan_239_upper unfolding pi_machin by linarith
  ultimately show ?thesis by linarith
qed

lemma round64_div_pow2:
  assumes "2 ^ 52 \<le> \<bar>y\<bar>" and "\<bar>y\<bar> < 2 ^ 53"
  shows "round64 (y / 2 ^ n) = real_of_int (round_half_even y) / 2 ^ n"
proof -
  have "(2::real) powr real_of_int (- int n) = 1 / 2 ^ n"
    by (simp add: powr_minus_divide powr_realpow)
  with round64_scaled [OF assms, of "- int n"] show ?thesis by simp
qed

lemma round64_two_np_pi: "mul64 2 np_pi = 7074237752028440 / 2 ^ 50"
proof -
  have "2 * np_pi = 7074237752028440 / 2 ^ 50" by (simp add: np_pi_def)
  moreover have "round64 (7074237752028440 / 2 ^ 50) = 7074237752028440 / 2 ^ 50"
    using round64_div_pow2 [of 7074237752028440 50] by (simp add: round_half_even_def)
  ultimately show ?thesis by (simp only: mul64_def)
qed

lemma round64_two_np_pi_440: "mul64 (7074237752028440 / 2 ^ 50) 440 = 6079423068149441 / 2 ^ 41"
proof -
  have "7074237752028440 / 2 ^ 50 * 440 = (48635384545195525 / 8) / (2 ^ 41 :: real)" by simp
  moreover have "round_half_even (48635384545195525 / 8) = 6079423068149441"
    by (simp add: round_half_even_def Let_def)
  moreover have "round64 ((48635384545195525 / 8) / 2 ^ 41)
      = real_of_int (round_half_even (48635384545195525 / 8)) / 2 ^ 41"
    by (rule round64_div_pow2) simp_all
  ultimately show ?thesis by (simp only: mul64_def)
qed

lemma round64_phase_1: "mul64 (6079423068149441 / 2 ^ 41) 1 = 6079423068149441 / 2 ^ 41"
  using round64_div_pow2 [of 6079423068149441 41] by (simp add: mul64_def round_half_even_def)

lemma phase64_440_1: "phase64 440 1 = 6079423068149441 / 2 ^ 41"
  by (simp only: phase64_def round64_two_np_pi round64_two_np_pi_440 round64_phase_1)

lemma phase64_0: "phase64 frequency 0 = 0"
  by (simp add: phase64_def mul64_def round64_0)

lemma sin_phase64_440_1: "0 < sin (6079423068149441 / 2 ^ 41 :: real)"
proof -
  let ?x = "6079423068149441 / 2 ^ 41 :: real"
  have "0 < ?x - 880 * pi" using pi_upper by simp
  moreover have "?x - 880 * pi < pi" using pi_lower by simp
  ultimately have "0 < sin (?x - 880 * pi)" by (rule sin_gt_zero)
  moreover have "sin (?x - 2 * real 440 * pi) = sin ?x"
    by (simp only: sin_diff sin_2npi cos_2npi mult_1_right mult_zero_right diff_zero)
  ultimately show ?thesis by simp
qed

lemma round64_8192: "round64 8192 = 8192"
  using round64_div_pow2 [of 4503599627370496 39] by (simp add: round_half_even_def)

lemma square64_440:
  "get_normed_wave64 tiny_factory 440 ''square'' = Inr [0, 8192]"
proof -
  have s: "sgn (np_sin (phase64 440 1)) = 1"
    using round64_pos [OF sin_phase64_440_1] by (simp add: np_sin_def phase64_440_1)
  have z: "sgn (np_sin (phase64 440 0)) = 0"
    by (simp add: phase64_0 np_sin_def round64_0)
  have "get_normed_wave64 tiny_factory 440 ''square''
      = Inr [mul64 (round64 8192) (sgn (np_sin (phase64 440 0))),
             mul64 (round64 8192) (sgn (np_sin (phase64 440 1)))]"
    by (simp add: get_normed_wave64_def waveform64_def tiny_factory_def MAX_AMPLITUDE_def
          phase64_def)
  also have "\<dots> = Inr [0, 8192]"
    by (simp only: s z) (simp add: mul64_def round64_0 round64_8192)
  finally show ?thesis .
qed

lemma exact_square_440_1: "spec_sample Square 8192 440 1 = 0"
proof -
  have "sin (2 * real 440 * pi) = 0" by (rule sin_2npi)
  moreover have "2 * pi * 440 * 1 = 2 * real 440 * pi" by simp
  ultimately have "sin (2 * pi * 440 * 1) = 0" by (simp only:)
  then show ?thesis by (simp add: spec_sign_def)
qed

text \<open>
  C3, as the claim stands, at the factory \<^verbatim>\<open>SoundWaveFactory(2, 1)\<close>, the frequency 440
  and the shape Square: the time point \<open>t = 1\<close> is a zero crossing of the exact sine, so
  the claim's sample is \<open>8192 * sign(0) = 0\<close>. The program takes the sine of the float64
  product \<open>2 * np.pi * 440 * 1\<close>, which lies above \<open>880\<pi>\<close> by about \<open>6.3e-14\<close>; its
  sine is positive and the sample is 8192.
\<close>

theorem square_zero_crossing_counterexample:
  "get_normed_wave64 tiny_factory 440 ''square'' = Inr [0, 8192]
   \<and> timeline tiny_factory ! 1 = 1
   \<and> spec_sample Square (max_amplitude tiny_factory) 440 (timeline tiny_factory ! 1) = 0"
  using square64_440 exact_square_440_1 by (simp add: tiny_factory_def MAX_AMPLITUDE_def)

text \<open>
  C3, amended. For a valid wave type the synthesis, in the arithmetic of the program
  (\<open>get_normed_wave64\<close>), returns a buffer as long as the timeline whose sample at
  every time point \<open>t\<close> is the claim's formula for that shape evaluated in float64
  arithmetic: with the phase \<open>p = ((2 * np.pi) * f) * t\<close> it is
  \<open>A * sin(p)\<close> for Sine, \<open>A * sign(sin(p))\<close> with \<open>sign(0) = 0\<close> for Square and
  \<open>(A * (2 / np.pi)) * arcsin(sin(p))\<close> for Triangle, every product and quotient
  rounded to float64. A Square sample is 0 where the float64 sine of the float64 phase
  is 0, not at every zero crossing of the exact sine.
\<close>

theorem get_normed_wave64_formulas:
  assumes "spec_wave_type wave_type = Some ty"
  shows "\<exists>wave. get_normed_wave64 self frequency wave_type = Inr wave
           \<and> length wave = length (timeline self)
           \<and> (\<forall>i < length (timeline self).
                 wave ! i = spec_sample64 ty (max_amplitude self) frequency (timeline self ! i))"
  using assms
  by (cases ty)
     (auto simp: get_normed_wave64_def waveform64_def spec_wave_type_def spec_sign_eq_sgn
           phase64_def split: if_splits)

theorem get_normed_wave64_formulas_witness:
  "spec_wave_type ''square'' = Some Square
   \<and> (\<exists>wave. get_normed_wave64 tiny_factory 440 ''square'' = Inr wave
         \<and> length wave = 2 \<and> wave ! 0 = 0 \<and> wave ! 1 = 8192)"
proof -
  have ty: "spec_wave_type ''square'' = Some Square"
    by (simp add: spec_wave_type_def)
  from get_normed_wave64_formulas [OF ty, of tiny_factory 440]
  obtain wave where w: "get_normed_wave64 tiny_factory 440 ''square'' = Inr wave"
      "length wave = length (timeline tiny_factory)"
      "\<forall>i < length (timeline tiny_factory).
         wave ! i = spec_sample64 Square (max_amplitude tiny_factory) 440 (timeline tiny_factory ! i)"
    by blast
  have s1: "spec_sign (np_sin (phase64 440 1)) = 1"
    using round64_pos [OF sin_phase64_440_1]
    by (simp add: np_sin_def phase64_440_1 spec_sign_def)
  have s0: "spec_sign (np_sin (phase64 440 0)) = 0"
    by (simp add: phase64_0 np_sin_def round64_0 spec_sign_def)
  have "spec_sample64 Square 8192 440 0 = 0"
    by (simp only: spec_sample64.simps s0) (simp add: mul64_def round64_0)
  moreover have "spec_sample64 Square 8192 440 1 = 8192"
    by (simp only: spec_sample64.simps s1) (simp add: mul64_def round64_8192)
  moreover from w(3) have "wave ! 0 = spec_sample64 Square 8192 440 0"
      "wave ! 1 = spec_sample64 Square 8192 440 1"
    by (simp_all add: tiny_factory_def MAX_AMPLITUDE_def)
  ultimately have "wave ! 0 = 0" "wave ! 1 = 8192"
    by simp_all
  with ty w(1,2) show ?thesis
    by (auto simp: tiny_factory_def)
qed

text \<open>
  The same at the default configuration, whose last time point is \<open>t = 5\<close>: the float64
  phase lies below \<open>4400\<pi>\<close>, its sine is negative and the last Square sample at 440 Hz
  is -8192.
\<close>

lemma arctan_5_lower12:
  "(\<Sum>i<12. (- 1) ^ i * (1 / real (i * 2 + 1) * (1 / 5) ^ (i * 2 + 1))) \<le> arctan (1 / 5)"
  using arctan_partial_sums(1) [of "1 / 5" 6] by simp

lemma arctan_239_upper3:
  "arctan (1 / 239) \<le> (\<Sum>i<3. (- 1) ^ i * (1 / real (i * 2 + 1) * (1 / 239) ^ (i * 2 + 1)))"
  using arctan_partial_sums(2) [of "1 / 239" 1] by simp

lemma pi_lower_tight: "7599278835186801 / 2 ^ 39 < 4400 * pi"
proof -
  have "(7599278835186801 / (4400 * 2 ^ 39) :: real)
        < 16 * (\<Sum>i<12. (- 1) ^ i * (1 / real (i * 2 + 1) * (1 / 5) ^ (i * 2 + 1)))
          - 4 * (\<Sum>i<3. (- 1) ^ i * (1 / real (i * 2 + 1) * (1 / 239) ^ (i * 2 + 1)))"
    by (simp add: lessThan_nat_numeral power_divide)
  moreover have "16 * (\<Sum>i<12. (- 1) ^ i * (1 / real (i * 2 + 1) * (1 / 5) ^ (i * 2 + 1)))
          - 4 * (\<Sum>i<3. (- 1) ^ i * (1 / real (i * 2 + 1) * (1 / 239) ^ (i * 2 + 1))) \<le> pi"
    using arctan_5_lower12 arctan_239_upper3 unfolding pi_machin by linarith
  ultimately have "7599278835186801 / (4400 * 2 ^ 39) < pi"
    by linarith
  then show ?thesis by (simp add: field_simps)
qed

lemma pi_upper_loose: "pi < 31416 / 10000"
proof -
  have "(6079423068149441 / 2 ^ 41 :: real) < 880 * (31416 / 10000)" by simp
  with pi_upper show ?thesis by linarith
qed

lemma round64_phase_5:
  "mul64 (6079423068149441 / 2 ^ 41) 5 = 7599278835186801 / 2 ^ 39"
proof -
  have "6079423068149441 / 2 ^ 41 * 5 = (30397115340747205 / 4) / (2 ^ 39 :: real)" by simp
  moreover have "round_half_even (30397115340747205 / 4) = 7599278835186801"
    by (simp add: round_half_even_def Let_def)
  moreover have "round64 ((30397115340747205 / 4) / 2 ^ 39)
      = real_of_int (round_half_even (30397115340747205 / 4)) / 2 ^ 39"
    by (rule round64_div_pow2) simp_all
  ultimately show ?thesis by (simp only: mul64_def)
qed

lemma phase64_440_5: "phase64 440 5 = 7599278835186801 / 2 ^ 39"
  by (simp only: phase64_def round64_two_np_pi round64_two_np_pi_440 round64_phase_5)

lemma sin_phase64_440_5: "sin (7599278835186801 / 2 ^ 39 :: real) < 0"
proof -
  let ?x = "7599278835186801 / 2 ^ 39 :: real"
  have "0 < 4400 * pi - ?x" using pi_lower_tight by simp
  moreover have "4399 * (31416 / 10000) < ?x" by simp
  then have "4400 * pi - ?x < pi" using pi_upper_loose by linarith
  ultimately have "0 < sin (4400 * pi - ?x)" by (rule sin_gt_zero)
  moreover have "sin (2 * real 2200 * pi - ?x) = - sin ?x"
    by (simp only: sin_diff sin_2npi cos_2npi mult_1 mult_zero_left diff_0)
  ultimately show ?thesis by simp
qed

lemma round_half_even_le_floor: "round_half_even x \<le> \<lfloor>x\<rfloor> + 1"
  by (simp add: round_half_even_def Let_def)

lemma round64_negative:
  assumes "x < 0"
  shows "round64 x < 0"
proof -
  let ?e = "\<lfloor>log 2 \<bar>x\<bar>\<rfloor>"
  let ?u = "2 powr (real_of_int ?e - 52)"
  have upos: "0 < ?u" by simp
  have ax: "\<bar>x\<bar> = - x" using assms by simp
  have "real_of_int ?e \<le> log 2 (- x)" by (simp add: ax)
  then have "2 powr real_of_int ?e \<le> - x"
    using assms by (simp add: powr_le_iff)
  moreover have "(2 powr 52) * ?u = 2 powr real_of_int ?e"
  proof -
    have "(2::real) powr 52 * 2 powr (real_of_int ?e - 52) = 2 powr (52 + (real_of_int ?e - 52))"
      by (rule powr_add [symmetric])
    then show ?thesis by (simp del: powr_numeral)
  qed
  ultimately have "(2 powr 52) * ?u \<le> - x"
    by (simp only:)
  then have "2 powr 52 \<le> (- x) / ?u"
    by (simp only: pos_le_divide_eq [OF upos])
  moreover have "(2::real) \<le> 2 powr 52"
    by simp
  ultimately have "x / ?u \<le> - 2"
    by simp
  then have "\<lfloor>x / ?u\<rfloor> \<le> - 2" by linarith
  then have "round_half_even (x / ?u) \<le> - 1"
    using round_half_even_le_floor [of "x / ?u"] by linarith
  then have "real_of_int (round_half_even (x / ?u)) < 0" by simp
  then have "real_of_int (round_half_even (x / ?u)) * ?u < 0"
    using upos by (simp add: mult_neg_pos)
  then show ?thesis using assms by (simp add: round64_def Let_def)
qed

lemma default_timeline_last:
  "\<exists>self. init SAMPLING_RATE DURATION_SECONDS MAX_AMPLITUDE = Inr self
      \<and> max_amplitude self = 8192 \<and> timeline self \<noteq> [] \<and> last (timeline self) = 5"
  using linspace_ge2 [of 220500 0 5]
  by (simp add: init_def SAMPLING_RATE_def DURATION_SECONDS_def MAX_AMPLITUDE_def
        last_list_update)

lemma square64_default_last:
  "\<exists>self wave. init SAMPLING_RATE DURATION_SECONDS MAX_AMPLITUDE = Inr self
      \<and> get_normed_wave64 self 440 ''square'' = Inr wave
      \<and> last (timeline self) = 5 \<and> last wave = - 8192"
proof -
  from default_timeline_last obtain self where
    s: "init SAMPLING_RATE DURATION_SECONDS MAX_AMPLITUDE = Inr self"
       "max_amplitude self = 8192" "timeline self \<noteq> []" "last (timeline self) = 5"
    by blast
  define f where "f = (\<lambda>t. mul64 (round64 8192) (sgn (np_sin (phase64 440 t))))"
  have w: "get_normed_wave64 self 440 ''square'' = Inr (map f (timeline self))"
    by (simp add: get_normed_wave64_def waveform64_def s(2) f_def phase64_def)
  have sg: "sgn (np_sin (phase64 440 5)) = - 1"
    using round64_negative [OF sin_phase64_440_5] by (simp add: np_sin_def phase64_440_5)
  have "round64 (- 8192) = - 8192"
    using round64_div_pow2 [of "- 4503599627370496" 39] by (simp add: round_half_even_def)
  then have f5: "f 5 = - 8192"
    unfolding f_def sg by (simp add: mul64_def round64_8192)
  have "last (map f (timeline self)) = f (last (timeline self))"
    using s(3) by (rule last_map)
  then have "last (map f (timeline self)) = - 8192"
    by (simp only: s(4) f5)
  with s(1,4) w show ?thesis by blast
qed

lemma triangle_bound: "\<bar>2 / pi * arcsin (sin x)\<bar> \<le> 1"
proof -
  have "- 1 \<le> sin x" "sin x \<le> 1" by simp_all
  then have "- (pi / 2) \<le> arcsin (sin x) \<and> arcsin (sin x) \<le> pi / 2"
    by (rule arcsin_bounded)
  then have "\<bar>arcsin (sin x)\<bar> \<le> pi / 2" by linarith
  then have "2 / pi * \<bar>arcsin (sin x)\<bar> \<le> 2 / pi * (pi / 2)"
    by (intro mult_left_mono) simp_all
  then show ?thesis by (simp add: abs_mult)
qed

lemma square_bound: "\<bar>sgn (y::real)\<bar> \<le> 1"
  by (simp add: sgn_real_def)

lemma scale_bound:
  fixes a y :: real
  assumes "0 \<le> a" "\<bar>y\<bar> \<le> 1"
  shows "\<bar>a * y\<bar> \<le> a"
proof -
  have "\<bar>a * y\<bar> = a * \<bar>y\<bar>" using assms(1) by (simp add: abs_mult)
  also have "\<dots> \<le> a * 1" using assms by (intro mult_left_mono) simp_all
  finally show ?thesis by simp
qed

text \<open>
  C4. For every frequency, every valid wave type and every amplitude \<open>A \<ge> 0\<close>, each
  sample of the buffer that \<open>get_normed_wave\<close> returns has magnitude at most \<open>A\<close> (in
  exact real arithmetic, so with tolerance zero).
\<close>

theorem get_normed_wave_bounded:
  assumes "wave_type \<in> {''sin'', ''square'', ''triangle''}" and "0 \<le> max_amplitude self"
  shows "\<exists>wave. get_normed_wave self frequency wave_type = Inr wave
           \<and> (\<forall>x \<in> set wave. \<bar>x\<bar> \<le> real_of_int (max_amplitude self))"
proof -
  let ?a = "real_of_int (max_amplitude self)"
  have a: "0 \<le> ?a" using assms(2) by simp
  have tri: "\<bar>?a * (2 / pi) * arcsin (sin x)\<bar> \<le> ?a" for x
    using scale_bound [OF a triangle_bound [of x]] by (simp add: mult.assoc)
  have sq: "\<bar>?a * sgn (sin x)\<bar> \<le> ?a" for x
    using scale_bound [OF a square_bound] .
  have si: "\<bar>?a * sin x\<bar> \<le> ?a" for x
    using scale_bound [OF a abs_sin_le_one] .
  from assms(1) consider "wave_type = ''sin''" | "wave_type = ''square''"
    | "wave_type = ''triangle''"
    by auto
  then show ?thesis
  proof cases
    case 1 then show ?thesis using si by (auto simp: get_normed_wave_def waveform_def)
  next
    case 2 then show ?thesis using sq by (auto simp: get_normed_wave_def waveform_def)
  next
    case 3 then show ?thesis using tri by (auto simp: get_normed_wave_def waveform_def)
  qed
qed

theorem get_normed_wave_bounded_witness:
  "''triangle'' \<in> {''sin'', ''square'', ''triangle''} \<and> 0 \<le> max_amplitude tiny_factory
   \<and> (\<exists>wave. get_normed_wave tiny_factory 440 ''triangle'' = Inr wave
         \<and> (\<forall>x \<in> set wave. \<bar>x\<bar> \<le> 8192))"
  using get_normed_wave_bounded [of "''triangle''" tiny_factory 440]
  by (simp add: tiny_factory_def MAX_AMPLITUDE_def)

subsection \<open>The timeline\<close>

text \<open>
  C5, as the claim stands, at \<open>sample_rate = 1\<close> and \<open>duration_seconds = 1\<close>: the timeline
  is the single value 0, so its last value is 0 and not the duration.
\<close>

theorem timeline_single_sample_counterexample:
  "init 1 1 MAX_AMPLITUDE = Inr unit_factory
   \<and> timeline unit_factory = [0]
   \<and> last (timeline unit_factory) \<noteq> real_of_int (duration_seconds unit_factory)"
  by (simp add: init_def linspace_def unit_factory_def Let_def)

text \<open>
  C5, amended. For every positive \<open>sample_rate\<close> and positive \<open>duration_seconds\<close> whose
  product \<open>N\<close> is at least 2, the constructor succeeds and the timeline has exactly \<open>N\<close>
  values, the first 0, the last exactly \<open>duration_seconds\<close>, and neighbours a constant
  \<open>duration_seconds / (N - 1)\<close> apart (endpoint-inclusive spacing).
\<close>

theorem timeline_inclusive_linear_space:
  assumes "0 < sr" and "0 < ds" and "2 \<le> sr * ds"
  shows "\<exists>self. init sr ds ma = Inr self
           \<and> length (timeline self) = nat (sr * ds)
           \<and> hd (timeline self) = 0
           \<and> last (timeline self) = real_of_int ds
           \<and> (\<forall>i. Suc i < nat (sr * ds) \<longrightarrow>
                 timeline self ! Suc i - timeline self ! i
                   = real_of_int ds / real_of_int (sr * ds - 1))"
proof -
  define n where "n = nat (sr * ds)"
  define step where "step = real_of_int ds / real_of_int (sr * ds - 1)"
  define ts where "ts = (map (\<lambda>i. real i * step + 0) [0..<n])[n - 1 := real_of_int ds]"
  have n2: "2 \<le> n" using assms(3) by (simp add: n_def)
  have lin: "linspace 0 (real_of_int ds) (sr * ds) = Inr ts"
    using linspace_ge2 [OF assms(3), of 0 "real_of_int ds"] by (simp add: ts_def step_def n_def)
  have len: "length ts = n" by (simp add: ts_def)
  have nth: "ts ! i = (if i = n - 1 then real_of_int ds else real i * step)" if "i < n" for i
    using that by (simp add: ts_def nth_list_update)
  have rn: "real_of_int (sr * ds - 1) = real n - 1"
    using n2 assms(3) by (simp add: n_def)
  have stepn: "real (n - 1) * step = real_of_int ds"
  proof -
    have "real (n - 1) = real n - 1" using n2 by (simp add: of_nat_diff)
    moreover have "real n - 1 \<noteq> 0" using n2 by simp
    ultimately show ?thesis unfolding step_def rn by simp
  qed
  have h: "hd ts = 0"
    using n2 nth [of 0] len by (cases ts) auto
  have l: "last ts = real_of_int ds"
    using n2 nth [of "n - 1"] len by (simp add: last_conv_nth [of ts] flip: length_greater_0_conv)
  have d: "ts ! Suc i - ts ! i = step" if "Suc i < n" for i
  proof (cases "Suc i = n - 1")
    case True
    then have "n - 1 = Suc i" by simp
    with stepn have "real_of_int ds = real (Suc i) * step" by metis
    then have "real_of_int ds - real i * step = step" by (simp add: algebra_simps)
    moreover have "ts ! Suc i = real_of_int ds" using True that by (simp add: nth)
    moreover have "ts ! i = real i * step" using True that by (simp add: nth)
    ultimately show ?thesis by simp
  next
    case False
    with that have "Suc i \<noteq> n - 1" "i \<noteq> n - 1" "i < n" by linarith+
    with that have "ts ! Suc i = real (Suc i) * step" "ts ! i = real i * step"
      by (simp_all add: nth)
    then show ?thesis by (simp add: algebra_simps)
  qed
  show ?thesis
    using lin len h l d by (simp add: init_def n_def step_def)
qed

theorem timeline_inclusive_linear_space_witness:
  "(0::int) < 3 \<and> (0::int) < 2 \<and> (2::int) \<le> 3 * 2
   \<and> (\<exists>self. init 3 2 MAX_AMPLITUDE = Inr self
         \<and> length (timeline self) = 6
         \<and> hd (timeline self) = 0
         \<and> last (timeline self) = 2
         \<and> timeline self ! 1 - timeline self ! 0 = 2 / 5)"
proof -
  from timeline_inclusive_linear_space [of 3 2 MAX_AMPLITUDE]
  obtain self where s: "init 3 2 MAX_AMPLITUDE = Inr self"
      "length (timeline self) = nat (3 * 2)" "hd (timeline self) = 0"
      "last (timeline self) = real_of_int 2"
      "\<forall>i. Suc i < nat (3 * 2) \<longrightarrow>
         timeline self ! Suc i - timeline self ! i = real_of_int 2 / real_of_int (3 * 2 - 1)"
    by auto
  from s(5) have "timeline self ! Suc 0 - timeline self ! 0 = 2 / 5"
    by simp
  with s(1-4) show ?thesis by simp
qed

subsection \<open>Quantisation\<close>

lemma trunc_toward_zero_sgn_floor:
  "real_of_int (trunc_toward_zero x) = sgn x * real_of_int \<lfloor>\<bar>x\<bar>\<rfloor>"
proof (cases "0 \<le> x")
  case True
  then show ?thesis
    by (cases "x = 0") (simp_all add: trunc_toward_zero_def sgn_real_def)
next
  case False
  then have "\<lceil>x\<rceil> = - \<lfloor>- x\<rfloor>" by (simp add: ceiling_def)
  with False show ?thesis
    by (simp add: trunc_toward_zero_def sgn_real_def)
qed

lemma trunc_toward_zero_fits_int16:
  assumes "- 32768 \<le> trunc_toward_zero x" "trunc_toward_zero x \<le> 32767"
  shows "sint (astype_int16 x) = trunc_toward_zero x"
  using assms
  by (simp add: astype_int16_def Let_def sint_sbintrunc' signed_take_bit_int_eq_self)

lemma sint_astype_int16_fits_int32:
  assumes "- 2147483648 \<le> trunc_toward_zero x" "trunc_toward_zero x \<le> 2147483647"
  shows "sint (astype_int16 x) = (trunc_toward_zero x + 32768) mod 65536 - 32768"
  using assms
  by (simp add: astype_int16_def Let_def sint_sbintrunc' signed_take_bit_eq_take_bit_shift
        take_bit_eq_mod)

lemma sint_astype_int16_beyond_int32:
  assumes "trunc_toward_zero x < - 2147483648 \<or> 2147483647 < trunc_toward_zero x"
  shows "sint (astype_int16 x) = 0"
  using assms by (auto simp: astype_int16_def Let_def)

lemma astype_int16_examples:
  "sint (astype_int16 2.75) = 2"
  "sint (astype_int16 (- 0.75)) = 0"
  "sint (astype_int16 (- 2.75)) = - 2"
  "sint (astype_int16 32768) = - 32768"
  "sint (astype_int16 40000.5) = - 25536"
  "sint (astype_int16 10000000000) = 0"
  by (simp_all add: astype_int16_def Let_def trunc_toward_zero_def)

subsection \<open>Wave creation\<close>

text \<open>
  C9. For a note that is not a key of the note table, \<open>create_wave\<close> raises the
  ValueError of the lookup, whatever the factory, the wave type and the environment
  are, and the files are as before: nothing is synthesised and nothing is written. The
  lookup of \<open>a4\<close> yields exactly 440.
\<close>

theorem create_wave_unknown_note:
  "(note \<notin> fst ` set NOTES \<longrightarrow>
      create_wave self refuses note name wave_type files =
        (Inl (ValueError (''Note '' @ apostrophe @ note @ apostrophe
                @ '' is not defined in the NOTES dictionary.'')), files))
   \<and> NOTES_get ''a4'' = Some 440"
  by (simp add: create_wave_def NOTES_get_unknown NOTES_get_a4)

theorem create_wave_unknown_note_witness:
  "''z9'' \<notin> fst ` set NOTES
   \<and> create_wave tiny_factory writable ''z9'' None ''sin'' [] =
        (Inl (ValueError (''Note '' @ apostrophe @ ''z9'' @ apostrophe
                @ '' is not defined in the NOTES dictionary.'')), [])"
  using create_wave_unknown_note [of "''z9''" tiny_factory writable None "''sin''" "[]"] z9_unknown
  by simp

text \<open>
  C10. For a known note and a wave type outside the valid set, \<open>create_wave\<close> does not
  let the ValueError of the wave-type test through: the handler catches it and raises
  the RuntimeError that names the note and carries the message of the ValueError; no
  file is written.
\<close>

theorem create_wave_wraps_invalid_wave_type:
  assumes "note \<in> fst ` set NOTES" and "wave_type \<notin> {''sin'', ''square'', ''triangle''}"
  shows "create_wave self refuses note name wave_type files =
           (Inl (RuntimeError (''Error creating wave for note '' @ apostrophe @ note @ apostrophe
                   @ '': '' @ ''Invalid wave type. Supported types: '' @ apostrophe @ ''sin''
                   @ apostrophe @ '', '' @ apostrophe @ ''square'' @ apostrophe @ '', ''
                   @ apostrophe @ ''triangle'' @ apostrophe @ ''.'')), files)
         \<and> (\<forall>m. fst (create_wave self refuses note name wave_type files) \<noteq> Inl (ValueError m))"
proof -
  from NOTES_get_known [OF assms(1)] obtain frequency where "NOTES_get note = Some frequency" ..
  with assms(2) show ?thesis
    by (simp add: create_wave_def get_normed_wave_def creation_error_def)
qed

theorem create_wave_wraps_invalid_wave_type_witness:
  "''a4'' \<in> fst ` set NOTES \<and> ''sawtooth'' \<notin> {''sin'', ''square'', ''triangle''}
   \<and> create_wave tiny_factory writable ''a4'' None ''sawtooth'' [] =
           (Inl (RuntimeError (''Error creating wave for note '' @ apostrophe @ ''a4'' @ apostrophe
                   @ '': '' @ ''Invalid wave type. Supported types: '' @ apostrophe @ ''sin''
                   @ apostrophe @ '', '' @ apostrophe @ ''square'' @ apostrophe @ '', ''
                   @ apostrophe @ ''triangle'' @ apostrophe @ ''.'')), [])"
  using create_wave_wraps_invalid_wave_type [of "''a4''" "''sawtooth''" tiny_factory writable None "[]"]
    a4_known
  by simp

text \<open>
  C1, as the claim stands, at the note \<open>a4\<close>, the wave type \<open>sin\<close> and an environment
  that refuses the write: \<open>create_wave\<close> returns no buffer, it raises.
\<close>

theorem create_wave_write_refused_counterexample:
  "''a4'' \<in> fst ` set NOTES \<and> ''sin'' \<in> {''sin'', ''square'', ''triangle''}
   \<and> create_wave tiny_factory read_only ''a4'' None ''sin'' [] =
       (Inl (RuntimeError (''Error creating wave for note '' @ apostrophe @ ''a4'' @ apostrophe
               @ '': Permission denied'')), [])"
  by (simp add: a4_known create_wave_def NOTES_get_a4 get_normed_wave_def waveform_def
        wavfile_write_def read_only_def creation_error_def Let_def)

text \<open>
  C1, amended. For every known note and valid wave type the synthesis succeeds; when
  the container write succeeds, \<open>create_wave\<close> returns the quantised int16 buffer and
  the file holds that buffer at the configured sampling rate; when the write fails,
  \<open>create_wave\<close> returns no buffer: the failure is wrapped into the one RuntimeError
  that names the note, and no file is added.
\<close>

theorem create_wave_returns_or_wraps:
  assumes "note \<in> fst ` set NOTES" and "wave_type \<in> {''sin'', ''square'', ''triangle''}"
  shows "\<exists>frequency wave.
           NOTES_get note = Some frequency
           \<and> get_normed_wave self frequency wave_type = Inr wave
           \<and> (refuses (wave_file_name note name) = None \<longrightarrow>
                create_wave self refuses note name wave_type files =
                  (Inr (map astype_int16 wave),
                   files @ [(wave_file_name note name, sampling_rate self, map astype_int16 wave)]))
           \<and> (\<forall>e. refuses (wave_file_name note name) = Some e \<longrightarrow>
                create_wave self refuses note name wave_type files =
                  (Inl (RuntimeError (''Error creating wave for note '' @ apostrophe @ note
                          @ apostrophe @ '': '' @ str_of e)), files))"
proof -
  from NOTES_get_known [OF assms(1)] obtain frequency where f: "NOTES_get note = Some frequency" ..
  from get_normed_wave_valid(2) [OF assms(2), of self frequency]
  obtain wave where w: "get_normed_wave self frequency wave_type = Inr wave" by blast
  have ok: "create_wave self refuses note name wave_type files =
          (Inr (map astype_int16 wave),
           files @ [(wave_file_name note name, sampling_rate self, map astype_int16 wave)])"
    if "refuses (wave_file_name note name) = None"
    using f w that by (simp add: create_wave_def wavfile_write_def Let_def)
  have bad: "create_wave self refuses note name wave_type files =
          (Inl (RuntimeError (''Error creating wave for note '' @ apostrophe @ note
                  @ apostrophe @ '': '' @ str_of e)), files)"
    if "refuses (wave_file_name note name) = Some e" for e
    using f w that by (simp add: create_wave_def wavfile_write_def creation_error_def Let_def)
  show ?thesis
    using f w ok bad by (intro exI [of _ frequency] exI [of _ wave]) simp
qed

theorem create_wave_returns_or_wraps_witness:
  "''a4'' \<in> fst ` set NOTES \<and> ''sin'' \<in> {''sin'', ''square'', ''triangle''}
   \<and> writable (wave_file_name ''a4'' None) = None
   \<and> read_only (wave_file_name ''a4'' None) = Some (OSError ''Permission denied'')
   \<and> (\<exists>samples. create_wave tiny_factory writable ''a4'' None ''sin'' []
                    = (Inr samples, [(''a4_wave.wav'', 2, samples)]))
   \<and> create_wave tiny_factory read_only ''a4'' None ''sin'' []
       = (Inl (RuntimeError (''Error creating wave for note '' @ apostrophe @ ''a4''
                  @ apostrophe @ '': Permission denied'')), [])"
proof -
  have v: "''sin'' \<in> {''sin'', ''square'', ''triangle''}" by simp
  have w: "writable (wave_file_name ''a4'' None) = None" by (simp add: writable_def)
  have r: "read_only (wave_file_name ''a4'' None) = Some (OSError ''Permission denied'')"
    by (simp add: read_only_def)
  from create_wave_returns_or_wraps
         [where refuses = writable and name = None and files = "[]" and self = tiny_factory,
          OF a4_known v] w
  have 1: "\<exists>samples. create_wave tiny_factory writable ''a4'' None ''sin'' []
                    = (Inr samples, [(''a4_wave.wav'', 2, samples)])"
    by (auto simp: wave_file_name_def tiny_factory_def)
  from create_wave_returns_or_wraps
         [where refuses = read_only and name = None and files = "[]" and self = tiny_factory,
          OF a4_known v] r
  have 2: "create_wave tiny_factory read_only ''a4'' None ''sin'' []
       = (Inl (RuntimeError (''Error creating wave for note '' @ apostrophe @ ''a4''
                  @ apostrophe @ '': Permission denied'')), [])"
    by auto
  from a4_known v w r 1 2 show ?thesis by blast
qed

text \<open>
  The factory \<open>factory_67\<close> is what the constructor builds, and its sine wave at the
  note \<open>a0\<close> has the samples \<open>a/2\<close> and \<open>-a/2\<close> at the time points 1 and 7.
\<close>

lemma NOTES_get_a0: "NOTES_get ''a0'' = Some 27.5"
  by (simp add: NOTES_get_def NOTES_def)

lemma init_factory_67: "init 67 1 a = Inr (factory_67 a)"
  using linspace_ge2 [of 67 0 1] by (simp add: init_def factory_67_def)

lemma timeline_factory_67:
  assumes "i < 66"
  shows "timeline (factory_67 a) ! i = real i / 66"
  using assms by (simp add: factory_67_def)

lemma sin_5_pi_6: "sin (5 * pi / 6) = 1 / 2"
proof -
  have "5 * pi / 6 = pi - pi / 6" by simp
  then have "sin (5 * pi / 6) = sin (pi / 6)" by (simp only: sin_pi_minus)
  then show ?thesis by (simp add: sin_30)
qed

lemma sin_35_pi_6: "sin (35 * pi / 6) = - (1 / 2)"
proof -
  have "35 * pi / 6 = - (pi / 6) + 2 * pi + 2 * pi + 2 * pi" by simp
  then have "sin (35 * pi / 6) = sin (- (pi / 6))" by (simp only: sin_periodic)
  then show ?thesis by (simp add: sin_30)
qed

lemma a0_sine_samples:
  "\<exists>wave. get_normed_wave (factory_67 a) 27.5 ''sin'' = Inr wave
      \<and> length wave = 67
      \<and> wave ! 1 = real_of_int a / 2 \<and> wave ! 7 = - (real_of_int a / 2)"
proof -
  define f where "f = (\<lambda>t. real_of_int a * sin (2 * pi * 27.5 * t))"
  have a1: "2 * pi * 27.5 * (1 / 66) = 5 * pi / 6" by simp
  have a7: "2 * pi * 27.5 * (7 / 66) = 35 * pi / 6" by simp
  have f1: "f (1 / 66) = real_of_int a / 2"
    unfolding f_def a1 sin_5_pi_6 by simp
  have f7: "f (7 / 66) = - (real_of_int a / 2)"
    unfolding f_def a7 sin_35_pi_6 by simp
  have t1: "timeline (factory_67 a) ! 1 = 1 / 66"
    using timeline_factory_67 [of 1 a] by simp
  have t7: "timeline (factory_67 a) ! 7 = 7 / 66"
    using timeline_factory_67 [of 7 a] by simp
  have len: "length (timeline (factory_67 a)) = 67" by (simp add: factory_67_def)
  have w: "get_normed_wave (factory_67 a) 27.5 ''sin'' = Inr (map f (timeline (factory_67 a)))"
    by (simp add: get_normed_wave_def waveform_def factory_67_def f_def)
  have "map f (timeline (factory_67 a)) ! 1 = f (timeline (factory_67 a) ! 1)"
    using len by (intro nth_map) simp
  also have "\<dots> = f (1 / 66)" by (simp only: t1)
  also have "\<dots> = real_of_int a / 2" by (rule f1)
  finally have s1: "map f (timeline (factory_67 a)) ! 1 = real_of_int a / 2" .
  have "map f (timeline (factory_67 a)) ! 7 = f (timeline (factory_67 a) ! 7)"
    using len by (intro nth_map) simp
  also have "\<dots> = f (7 / 66)" by (simp only: t7)
  also have "\<dots> = - (real_of_int a / 2)" by (rule f7)
  finally have s7: "map f (timeline (factory_67 a)) ! 7 = - (real_of_int a / 2)" .
  show ?thesis
    using w s1 s7 len by (intro exI [of _ "map f (timeline (factory_67 a))"]) simp
qed

text \<open>
  C6. When the note is known, the synthesis succeeds and the write goes through,
  \<open>create_wave\<close> returns one int16 sample per synthesised sample \<open>x\<close>. The sample is
  cut to the integer \<open>sgn x * \<lfloor>|x|\<rfloor>\<close>: the fractional part is dropped towards zero,
  there is no rounding to the nearest. Inside the int16 range that integer is the
  result; outside it the result wraps around modulo \<open>2^16\<close> as long as the integer
  fits 32 bits, and is 0 beyond. In no case does the conversion saturate.
\<close>

theorem create_wave_quantizes_by_truncation:
  assumes "NOTES_get note = Some frequency"
    and "get_normed_wave self frequency wave_type = Inr wave"
    and "refuses (wave_file_name note name) = None"
  shows "\<exists>samples. fst (create_wave self refuses note name wave_type files) = Inr samples
           \<and> length samples = length wave
           \<and> (\<forall>i < length wave.
                 real_of_int (trunc_toward_zero (wave ! i))
                     = sgn (wave ! i) * real_of_int \<lfloor>\<bar>wave ! i\<bar>\<rfloor>
                 \<and> (- 32768 \<le> trunc_toward_zero (wave ! i)
                      \<and> trunc_toward_zero (wave ! i) \<le> 32767
                      \<longrightarrow> sint (samples ! i) = trunc_toward_zero (wave ! i))
                 \<and> (- 2147483648 \<le> trunc_toward_zero (wave ! i)
                      \<and> trunc_toward_zero (wave ! i) \<le> 2147483647
                      \<longrightarrow> sint (samples ! i)
                            = (trunc_toward_zero (wave ! i) + 32768) mod 65536 - 32768)
                 \<and> (trunc_toward_zero (wave ! i) < - 2147483648
                      \<or> 2147483647 < trunc_toward_zero (wave ! i)
                      \<longrightarrow> sint (samples ! i) = 0))"
proof -
  have cw: "fst (create_wave self refuses note name wave_type files) = Inr (map astype_int16 wave)"
    using assms by (simp add: create_wave_def wavfile_write_def Let_def)
  show ?thesis
    using cw trunc_toward_zero_fits_int16 sint_astype_int16_fits_int32
      sint_astype_int16_beyond_int32
    by (simp add: trunc_toward_zero_sgn_floor)
qed

theorem create_wave_quantizes_by_truncation_witness:
  "NOTES_get ''a0'' = Some 27.5
   \<and> writable (wave_file_name ''a0'' None) = None
   \<and> (\<exists>wave samples.
         get_normed_wave (factory_67 3) 27.5 ''sin'' = Inr wave
         \<and> fst (create_wave (factory_67 3) writable ''a0'' None ''sin'' []) = Inr samples
         \<and> wave ! 1 = 3 / 2 \<and> sint (samples ! 1) = 1
         \<and> wave ! 7 = - (3 / 2) \<and> sint (samples ! 7) = - 1)
   \<and> (\<exists>wave samples.
         get_normed_wave (factory_67 80001) 27.5 ''sin'' = Inr wave
         \<and> fst (create_wave (factory_67 80001) writable ''a0'' None ''sin'' []) = Inr samples
         \<and> wave ! 1 = 80001 / 2 \<and> sint (samples ! 1) = - 25536)
   \<and> (\<exists>wave samples.
         get_normed_wave (factory_67 20000000000) 27.5 ''sin'' = Inr wave
         \<and> fst (create_wave (factory_67 20000000000) writable ''a0'' None ''sin'' []) = Inr samples
         \<and> wave ! 1 = 10000000000 \<and> sint (samples ! 1) = 0)"
proof -
  have n: "NOTES_get ''a0'' = Some 27.5" by (rule NOTES_get_a0)
  have w: "writable (wave_file_name ''a0'' None) = None" by (simp add: writable_def)
  have step: "\<exists>wave samples.
         get_normed_wave (factory_67 a) 27.5 ''sin'' = Inr wave
         \<and> fst (create_wave (factory_67 a) writable ''a0'' None ''sin'' []) = Inr samples
         \<and> wave ! 1 = real_of_int a / 2 \<and> wave ! 7 = - (real_of_int a / 2)
         \<and> (\<forall>i < 67.
               (- 32768 \<le> trunc_toward_zero (wave ! i) \<and> trunc_toward_zero (wave ! i) \<le> 32767
                  \<longrightarrow> sint (samples ! i) = trunc_toward_zero (wave ! i))
               \<and> (- 2147483648 \<le> trunc_toward_zero (wave ! i)
                    \<and> trunc_toward_zero (wave ! i) \<le> 2147483647
                  \<longrightarrow> sint (samples ! i)
                        = (trunc_toward_zero (wave ! i) + 32768) mod 65536 - 32768)
               \<and> (trunc_toward_zero (wave ! i) < - 2147483648
                    \<or> 2147483647 < trunc_toward_zero (wave ! i)
                  \<longrightarrow> sint (samples ! i) = 0))" for a
  proof -
    from a0_sine_samples [of a] obtain wave where
      g: "get_normed_wave (factory_67 a) 27.5 ''sin'' = Inr wave" and len: "length wave = 67"
      and s: "wave ! 1 = real_of_int a / 2" "wave ! 7 = - (real_of_int a / 2)"
      by blast
    from create_wave_quantizes_by_truncation
           [where refuses = writable and name = None and files = "[]", OF n g w]
    show ?thesis
      using g len s by (auto simp del: One_nat_def)
  qed
  have t: "trunc_toward_zero (3 / 2) = 1" "trunc_toward_zero (- (3 / 2)) = - 1"
      "trunc_toward_zero (80001 / 2) = 40000" "trunc_toward_zero 10000000000 = 10000000000"
    by (simp_all add: trunc_toward_zero_def)
  have 1: "\<exists>wave samples.
         get_normed_wave (factory_67 3) 27.5 ''sin'' = Inr wave
         \<and> fst (create_wave (factory_67 3) writable ''a0'' None ''sin'' []) = Inr samples
         \<and> wave ! 1 = 3 / 2 \<and> sint (samples ! 1) = 1
         \<and> wave ! 7 = - (3 / 2) \<and> sint (samples ! 7) = - 1"
  proof -
    from step [of 3] obtain wave samples where
      h: "get_normed_wave (factory_67 3) 27.5 ''sin'' = Inr wave"
         "fst (create_wave (factory_67 3) writable ''a0'' None ''sin'' []) = Inr samples"
         "wave ! 1 = 3 / 2" "wave ! 7 = - (3 / 2)"
      and q: "\<And>i. i < 67 \<Longrightarrow> - 32768 \<le> trunc_toward_zero (wave ! i)
                 \<Longrightarrow> trunc_toward_zero (wave ! i) \<le> 32767
                 \<Longrightarrow> sint (samples ! i) = trunc_toward_zero (wave ! i)"
      by auto
    have "trunc_toward_zero (wave ! 1) = 1" "trunc_toward_zero (wave ! 7) = - 1"
      by (simp_all only: h(3,4) t)
    then have "sint (samples ! 1) = 1" "sint (samples ! 7) = - 1"
      using q [of 1] q [of 7] by simp_all
    then show ?thesis using h by blast
  qed
  have 2: "\<exists>wave samples.
         get_normed_wave (factory_67 80001) 27.5 ''sin'' = Inr wave
         \<and> fst (create_wave (factory_67 80001) writable ''a0'' None ''sin'' []) = Inr samples
         \<and> wave ! 1 = 80001 / 2 \<and> sint (samples ! 1) = - 25536"
  proof -
    from step [of 80001] obtain wave samples where
      h: "get_normed_wave (factory_67 80001) 27.5 ''sin'' = Inr wave"
         "fst (create_wave (factory_67 80001) writable ''a0'' None ''sin'' []) = Inr samples"
         "wave ! 1 = 80001 / 2"
      and q: "\<And>i. i < 67 \<Longrightarrow> - 2147483648 \<le> trunc_toward_zero (wave ! i)
                 \<Longrightarrow> trunc_toward_zero (wave ! i) \<le> 2147483647
                 \<Longrightarrow> sint (samples ! i)
                       = (trunc_toward_zero (wave ! i) + 32768) mod 65536 - 32768"
      by auto
    have "trunc_toward_zero (wave ! 1) = 40000"
      by (simp only: h(3) t)
    then have "sint (samples ! 1) = - 25536"
      using q [of 1] by simp
    then show ?thesis using h by blast
  qed
  have 3: "\<exists>wave samples.
         get_normed_wave (factory_67 20000000000) 27.5 ''sin'' = Inr wave
         \<and> fst (create_wave (factory_67 20000000000) writable ''a0'' None ''sin'' []) = Inr samples
         \<and> wave ! 1 = 10000000000 \<and> sint (samples ! 1) = 0"
  proof -
    from step [of 20000000000] obtain wave samples where
      h: "get_normed_wave (factory_67 20000000000) 27.5 ''sin'' = Inr wave"
         "fst (create_wave (factory_67 20000000000) writable ''a0'' None ''sin'' []) = Inr samples"
         "wave ! 1 = 10000000000"
      and q: "\<And>i. i < 67 \<Longrightarrow> 2147483647 < trunc_toward_zero (wave ! i)
                 \<Longrightarrow> sint (samples ! i) = 0"
      by auto
    have "trunc_toward_zero (wave ! 1) = 10000000000"
      by (simp only: h(3) t)
    then have "sint (samples ! 1) = 0"
      using q [of 1] by simp
    then show ?thesis using h by blast
  qed
  from n w 1 2 3 show ?thesis by (intro conjI)
qed

subsection \<open>The normaliser\<close>

lemma py_max_nonempty: "xs \<noteq> [] \<Longrightarrow> \<exists>m. py_max gt xs = Inr m"
  by (cases xs) simp_all

lemma foldl_keep_const:
  assumes "\<not> gt z z" and "\<forall>y \<in> set ys. y = z"
  shows "foldl (\<lambda>m y. if gt y m then y else m) z ys = z"
  using assms by (induction ys) simp_all

lemma py_max_const:
  assumes "xs \<noteq> []" and "\<not> gt z z" and "\<forall>y \<in> set xs. y = z"
  shows "py_max gt xs = Inr z"
  using assms by (cases xs) (simp_all add: foldl_keep_const)

lemma normalize_wave_nonempty:
  assumes "len w \<noteq> 0"
  shows "\<exists>r. normalize_wave a w = Inr r \<and> length r = len w"
proof (cases w)
  case (Int16Array wave)
  with assms have "map abs_int16 wave \<noteq> []" by simp
  from py_max_nonempty [OF this] obtain m where "py_max gt_int16 (map abs_int16 wave) = Inr m" ..
  with Int16Array show ?thesis by simp
next
  case (Float64Array wave)
  with assms have "map abs_float64 wave \<noteq> []" by simp
  from py_max_nonempty [OF this] obtain m where "py_max gt_float64 (map abs_float64 wave) = Inr m" ..
  with Float64Array show ?thesis by simp
qed

lemma normalize_wave_empty:
  assumes "len w = 0"
  shows "normalize_wave a w = Inl (ValueError ''max() arg is an empty sequence'')"
  using assms by (cases w) simp_all

lemma normalize_wave_all_zero:
  assumes "len w \<noteq> 0" and "all_zero w"
  shows "normalize_wave a w = Inr (replicate (len w) NaN)"
proof (cases w)
  case (Int16Array wave)
  have z: "\<forall>x \<in> set wave. x = 0"
    using assms Int16Array by (simp add: list_all_iff)
  then have "\<forall>y \<in> set (map abs_int16 wave). y = 0"
    by (auto simp: abs_int16_def)
  moreover have "map abs_int16 wave \<noteq> []" "\<not> gt_int16 0 0"
    using assms Int16Array by (simp_all add: gt_int16_def)
  ultimately have m: "py_max gt_int16 (map abs_int16 wave) = Inr 0"
    by (intro py_max_const)
  have "map (\<lambda>x. multiply_int (true_divide (Finite (real_of_int (sint x)))
                (Finite (real_of_int (sint (0 :: 16 word))))) a) wave
          = map (\<lambda>x. NaN) wave"
    using z by (intro map_ext) auto
  also have "\<dots> = replicate (length wave) NaN"
    by (simp add: map_replicate_const)
  finally show ?thesis using m Int16Array by simp
next
  case (Float64Array wave)
  have z: "\<forall>x \<in> set wave. x = Finite 0"
    using assms Float64Array by (simp add: list_all_iff)
  then have "\<forall>y \<in> set (map abs_float64 wave). y = Finite 0"
    by auto
  moreover have "map abs_float64 wave \<noteq> []" "\<not> gt_float64 (Finite 0) (Finite 0)"
    using assms Float64Array by simp_all
  ultimately have m: "py_max gt_float64 (map abs_float64 wave) = Inr (Finite 0)"
    by (intro py_max_const)
  have "map (\<lambda>x. multiply_int (true_divide x (Finite 0)) a) wave = map (\<lambda>x. NaN) wave"
    using z by (intro map_ext) auto
  also have "\<dots> = replicate (length wave) NaN"
    by (simp add: map_replicate_const)
  finally show ?thesis using m Float64Array by simp
qed

lemma normalize_each_nonempty:
  assumes "\<forall>w \<in> set waves. len w \<noteq> 0"
  shows "\<exists>rs. normalize_each a waves = Inr rs \<and> length rs = length waves
           \<and> (\<forall>i < length waves. normalize_wave a (waves ! i) = Inr (rs ! i))"
  using assms
proof (induction waves)
  case Nil
  then show ?case by simp
next
  case (Cons w waves)
  then obtain rs where rs: "normalize_each a waves = Inr rs" "length rs = length waves"
      "\<forall>i < length waves. normalize_wave a (waves ! i) = Inr (rs ! i)"
    by auto
  from Cons.prems obtain r where r: "normalize_wave a w = Inr r"
    using normalize_wave_nonempty [of w a] by auto
  have "\<forall>i < length (w # waves). normalize_wave a ((w # waves) ! i) = Inr ((r # rs) ! i)"
    using r rs(3) by (auto simp: nth_Cons split: nat.splits)
  with r rs show ?case by simp
qed

lemma arrays_of_Ndarray: "arrays_of (map Ndarray waves) = waves"
  by (induction waves) simp_all

lemma list_all_Ndarray: "list_all isinstance_ndarray (map Ndarray waves)"
  by (induction waves) simp_all

lemma normalize_sound_waves_arrays:
  "normalize_sound_waves self (map Ndarray waves) =
     (case normalize_each (max_amplitude self) waves of
        Inl e \<Rightarrow> Inl (RuntimeError (''Error normalizing sound waves: '' @ str_of e))
      | Inr rs \<Rightarrow> Inr rs)"
  by (simp add: normalize_sound_waves_def arrays_of_Ndarray list_all_Ndarray)

text \<open>
  C2, at a list holding the all-zero float buffer \<open>[0.0, 0.0]\<close>: the division by the
  peak 0 raises nothing, so the handler of the normaliser is not reached and the call
  returns the buffer \<open>[NaN, NaN]\<close> where the claim has a NormalizationError.
\<close>

theorem normalize_all_zero_returns_nan:
  "normalize_sound_waves tiny_factory [Ndarray (Float64Array [Finite 0, Finite 0])]
     = Inr [[NaN, NaN]]"
  by (simp add: normalize_sound_waves_def)

text \<open>The RuntimeError of the normaliser is the one of an empty buffer, where \<^verbatim>\<open>max\<close> raises.\<close>

lemma normalize_empty_buffer:
  "normalize_sound_waves self [Ndarray (Int16Array [])]
     = Inl (RuntimeError ''Error normalizing sound waves: max() arg is an empty sequence'')"
  by (simp add: normalize_sound_waves_def)

text \<open>
  Peak normalisation where the peak is found: for a float buffer of finite samples and
  for an int16 buffer without the value -32768, not all zero, \<open>normalize_wave\<close> returns
  the buffer divided by its largest magnitude and multiplied by \<open>max_amplitude\<close>, and
  the largest magnitude of the result is \<open>|max_amplitude|\<close>. By
  \<open>normalize_each_nonempty\<close> each buffer of a list is treated on its own.
\<close>

lemma Max_insert_max:
  fixes z y :: "'a::linorder"
  assumes "finite S"
  shows "Max (insert (max z y) S) = Max (insert z (insert y S))"
proof (cases "S = {}")
  case True
  then show ?thesis by (simp add: max.commute)
next
  case False
  with assms show ?thesis by (simp add: max.assoc)
qed

lemma foldl_gt_float64_finite:
  "foldl (\<lambda>m y. if gt_float64 y m then y else m) (Finite z) (map Finite ys)
     = Finite (Max (insert z (set ys)))"
proof (induction ys arbitrary: z)
  case Nil
  then show ?case by simp
next
  case (Cons y ys)
  have "(if gt_float64 (Finite y) (Finite z) then Finite y else Finite z) = Finite (max z y)"
    by (simp add: max_def)
  then show ?case
    using Cons.IH [of "max z y"] by (simp add: Max_insert_max del: Max_insert)
qed

lemma py_max_abs_finite:
  assumes "xs \<noteq> []"
  shows "py_max gt_float64 (map abs_float64 (map Finite xs)) = Inr (Finite (Max (abs ` set xs)))"
proof (cases xs)
  case Nil
  with assms show ?thesis by simp
next
  case (Cons x xs')
  have "map abs_float64 (map Finite xs') = map Finite (map abs xs')"
    by simp
  then have "py_max gt_float64 (map abs_float64 (map Finite xs))
      = Inr (foldl (\<lambda>m y. if gt_float64 y m then y else m) (Finite \<bar>x\<bar>) (map Finite (map abs xs')))"
    using Cons by (simp del: map_map)
  also have "\<dots> = Inr (Finite (Max (insert \<bar>x\<bar> (set (map abs xs')))))"
    by (simp only: foldl_gt_float64_finite)
  also have "insert \<bar>x\<bar> (set (map abs xs')) = abs ` set xs"
    using Cons by simp
  finally show ?thesis .
qed

lemma foldl_gt_int16:
  "sint (foldl (\<lambda>m y. if gt_int16 y m then y else m) z ys) = Max (sint ` insert z (set ys))"
proof (induction ys arbitrary: z)
  case Nil
  then show ?case by simp
next
  case (Cons y ys)
  have "sint (if gt_int16 y z then y else z) = max (sint z) (sint y)"
    by (simp add: gt_int16_def max_def)
  have "sint (foldl (\<lambda>m y. if gt_int16 y m then y else m) (if gt_int16 y z then y else z) ys)
          = Max (insert (max (sint z) (sint y)) (sint ` set ys))"
    using Cons.IH [of "if gt_int16 y z then y else z"]
    by (simp add: gt_int16_def max_def)
  then show ?case
    by (simp add: Max_insert_max del: Max_insert)
qed

lemma sint_abs_int16:
  assumes "sint x \<noteq> - 32768"
  shows "sint (abs_int16 x) = \<bar>sint x\<bar>"
proof -
  have r: "- 32768 \<le> sint x" "sint x < 32768"
    using sint_range_size [of x] by (simp_all add: word_size)
  have "sint (- x) = - sint x" if "sint x < 0"
  proof -
    have "sint (- x) = signed_take_bit 15 (- sint x)"
      by (simp add: sint_word_ariths)
    also have "\<dots> = - sint x"
      using r assms that by (intro signed_take_bit_int_eq_self) simp_all
    finally show ?thesis .
  qed
  then show ?thesis by (simp add: abs_int16_def)
qed

lemma py_max_abs_int16:
  assumes "w \<noteq> []" and "\<forall>x \<in> set w. sint x \<noteq> - 32768"
  shows "\<exists>m. py_max gt_int16 (map abs_int16 w) = Inr m
           \<and> sint m = Max ((\<lambda>x. \<bar>sint x\<bar>) ` set w)"
proof (cases w)
  case Nil
  with assms show ?thesis by simp
next
  case (Cons x xs)
  have "sint ` insert (abs_int16 x) (set (map abs_int16 xs)) = (\<lambda>x. \<bar>sint x\<bar>) ` set w"
    using assms(2) Cons by (auto simp: sint_abs_int16 image_iff)
  then show ?thesis
    using foldl_gt_int16 [of "abs_int16 x" "map abs_int16 xs"] Cons by simp
qed

lemma peak_scaling:
  fixes f :: "'a \<Rightarrow> real"
  assumes "finite S" and "x0 \<in> S" and "f x0 \<noteq> 0"
  shows "0 < Max ((\<lambda>x. \<bar>f x\<bar>) ` S)"
    and "Max ((\<lambda>x. \<bar>f x / Max ((\<lambda>x. \<bar>f x\<bar>) ` S) * a\<bar>) ` S) = \<bar>a\<bar>"
proof -
  define M where "M = Max ((\<lambda>x. \<bar>f x\<bar>) ` S)"
  have fin: "finite ((\<lambda>x. \<bar>f x\<bar>) ` S)" and ne: "(\<lambda>x. \<bar>f x\<bar>) ` S \<noteq> {}"
    using assms(1,2) by auto
  have le: "\<bar>f x\<bar> \<le> M" if "x \<in> S" for x
    unfolding M_def using fin that by (intro Max_ge) auto
  from le [OF assms(2)] assms(3) have pos: "0 < M" by linarith
  from Max_in [OF fin ne] obtain x1 where x1: "x1 \<in> S" "\<bar>f x1\<bar> = M"
    unfolding M_def by auto
  have bound: "\<bar>f x / M * a\<bar> \<le> \<bar>a\<bar>" if "x \<in> S" for x
  proof -
    have "\<bar>f x\<bar> / M \<le> 1" using le [OF that] pos by simp
    then have "\<bar>f x\<bar> / M * \<bar>a\<bar> \<le> 1 * \<bar>a\<bar>" by (intro mult_right_mono) simp_all
    moreover have "\<bar>f x / M * a\<bar> = \<bar>f x\<bar> / M * \<bar>a\<bar>"
      using pos by (simp add: abs_mult)
    ultimately show ?thesis by simp
  qed
  have att: "\<bar>f x1 / M * a\<bar> = \<bar>a\<bar>"
  proof -
    have "\<bar>f x1 / M * a\<bar> = \<bar>f x1\<bar> / M * \<bar>a\<bar>"
      using pos by (simp add: abs_mult)
    also have "\<dots> = \<bar>a\<bar>" using x1(2) pos by simp
    finally show ?thesis .
  qed
  have "Max ((\<lambda>x. \<bar>f x / M * a\<bar>) ` S) = \<bar>a\<bar>"
  proof (rule Max_eqI)
    show "finite ((\<lambda>x. \<bar>f x / M * a\<bar>) ` S)" using assms(1) by simp
  next
    fix y assume "y \<in> (\<lambda>x. \<bar>f x / M * a\<bar>) ` S"
    then obtain x where "x \<in> S" "y = \<bar>f x / M * a\<bar>" by blast
    then show "y \<le> \<bar>a\<bar>" using bound by simp
  next
    have "\<bar>f x1 / M * a\<bar> \<in> (\<lambda>x. \<bar>f x / M * a\<bar>) ` S"
      using x1(1) by (rule imageI)
    then show "\<bar>a\<bar> \<in> (\<lambda>x. \<bar>f x / M * a\<bar>) ` S"
      by (simp only: att)
  qed
  then show "Max ((\<lambda>x. \<bar>f x / Max ((\<lambda>x. \<bar>f x\<bar>) ` S) * a\<bar>) ` S) = \<bar>a\<bar>"
    by (simp only: M_def)
  from pos show "0 < Max ((\<lambda>x. \<bar>f x\<bar>) ` S)"
    by (simp only: M_def)
qed

lemma normalize_wave_float_peak:
  assumes "x0 \<in> set xs" and "x0 \<noteq> 0"
  shows "normalize_wave a (Float64Array (map Finite xs))
           = Inr (map (\<lambda>x. Finite (x / Max (abs ` set xs) * real_of_int a)) xs)"
    and "Max ((\<lambda>x. \<bar>x / Max (abs ` set xs) * real_of_int a\<bar>) ` set xs) = \<bar>real_of_int a\<bar>"
proof -
  from assms(1) have ne: "xs \<noteq> []" by auto
  have pos: "0 < Max (abs ` set xs)"
    using peak_scaling(1) [of "set xs" x0 "\<lambda>x. x"] assms by simp
  have m: "py_max gt_float64 (map abs_float64 (map Finite xs)) = Inr (Finite (Max (abs ` set xs)))"
    by (rule py_max_abs_finite [OF ne])
  have "normalize_wave a (Float64Array (map Finite xs))
          = Inr (map (\<lambda>x. multiply_int (true_divide x (Finite (Max (abs ` set xs)))) a) (map Finite xs))"
    by (simp only: normalize_wave.simps m sum.case)
  also have "map (\<lambda>x. multiply_int (true_divide x (Finite (Max (abs ` set xs)))) a) (map Finite xs)
          = map (\<lambda>x. Finite (x / Max (abs ` set xs) * real_of_int a)) xs"
    using pos by simp
  finally show "normalize_wave a (Float64Array (map Finite xs))
           = Inr (map (\<lambda>x. Finite (x / Max (abs ` set xs) * real_of_int a)) xs)" .
  show "Max ((\<lambda>x. \<bar>x / Max (abs ` set xs) * real_of_int a\<bar>) ` set xs) = \<bar>real_of_int a\<bar>"
    using peak_scaling(2) [of "set xs" x0 "\<lambda>x. x" "real_of_int a"] assms by simp
qed

lemma normalize_wave_int16_peak:
  assumes "\<forall>x \<in> set w. sint x \<noteq> - 32768" and "x0 \<in> set w" and "x0 \<noteq> 0"
  shows "normalize_wave a (Int16Array w)
           = Inr (map (\<lambda>x. Finite (real_of_int (sint x)
                     / Max ((\<lambda>x. \<bar>real_of_int (sint x)\<bar>) ` set w) * real_of_int a)) w)"
    and "Max ((\<lambda>x. \<bar>real_of_int (sint x)
                 / Max ((\<lambda>x. \<bar>real_of_int (sint x)\<bar>) ` set w) * real_of_int a\<bar>) ` set w)
           = \<bar>real_of_int a\<bar>"
proof -
  let ?f = "\<lambda>x :: 16 word. real_of_int (sint x)"
  let ?M = "Max ((\<lambda>x. \<bar>?f x\<bar>) ` set w)"
  from assms(2) have ne: "w \<noteq> []" by auto
  from assms(3) have nz: "?f x0 \<noteq> 0"
    by (simp add: signed_eq_0_iff)
  have pos: "0 < ?M"
    by (rule peak_scaling(1) [of "set w" x0 ?f, OF _ assms(2) nz]) simp
  from py_max_abs_int16 [OF ne assms(1)] obtain m where
    m: "py_max gt_int16 (map abs_int16 w) = Inr m" "sint m = Max ((\<lambda>x. \<bar>sint x\<bar>) ` set w)"
    by blast
  have "real_of_int (Max ((\<lambda>x. \<bar>sint x\<bar>) ` set w))
          = Max (real_of_int ` (\<lambda>x. \<bar>sint x\<bar>) ` set w)"
    using ne by (intro mono_Max_commute) (auto simp: mono_def)
  also have "real_of_int ` (\<lambda>x :: 16 word. \<bar>sint x\<bar>) ` set w = (\<lambda>x. \<bar>?f x\<bar>) ` set w"
    by (simp add: image_image)
  finally have mM: "real_of_int (sint m) = ?M"
    by (simp only: m(2))
  have "normalize_wave a (Int16Array w)
          = Inr (map (\<lambda>x. multiply_int (true_divide (Finite (?f x)) (Finite ?M)) a) w)"
    by (simp only: normalize_wave.simps m(1) sum.case mM)
  also have "map (\<lambda>x. multiply_int (true_divide (Finite (?f x)) (Finite ?M)) a) w
          = map (\<lambda>x. Finite (?f x / ?M * real_of_int a)) w"
    using pos by simp
  finally show "normalize_wave a (Int16Array w) = Inr (map (\<lambda>x. Finite (?f x / ?M * real_of_int a)) w)" .
  show "Max ((\<lambda>x. \<bar>?f x / ?M * real_of_int a\<bar>) ` set w) = \<bar>real_of_int a\<bar>"
    by (rule peak_scaling(2) [of "set w" x0 ?f, OF _ assms(2) nz]) simp
qed

text \<open>
  C7, at the int16 buffer \<open>[-32768, 1]\<close> with \<open>max_amplitude = 8192\<close>: the absolute value
  of -32768 wraps to -32768, so the peak is taken to be 1 and the returned buffer is
  \<open>[-268435456, 8192]\<close>; its largest magnitude is not \<open>max_amplitude\<close>, and it is not
  the buffer divided by its peak 32768.
\<close>

theorem normalize_int16_min_peak_missed:
  "normalize_sound_waves tiny_factory [Ndarray (Int16Array [- 32768, 1])]
     = Inr [[Finite (- 268435456), Finite 8192]]"
  by (simp add: normalize_sound_waves_def gt_int16_def abs_int16_def tiny_factory_def
        MAX_AMPLITUDE_def)

end
